theory Spec2Isabelle
  imports Complex_Main
begin

section \<open>Numbers, vectors and the particle record\<close>

text \<open>
  The program computes with JavaScript numbers. They are modelled as real numbers: rounding
  is left out, and the one way the program can produce NaN (the arc cosine of a number
  outside \<open>[-1, 1]\<close>, or a quotient by zero) is modelled explicitly where it can happen.

  \<open>SceneMode\<close> is the enum of \<open>src/types.ts\<close>; \<open>AppMode\<close> of the older
  \<open>Experience\<close> class has the same three members and is modelled by the same type.
\<close>

datatype SceneMode = TREE | SCATTER | FOCUS

datatype ptype = DECOR | PHOTO | DUST

record vec3 =
  vx :: real
  vy :: real
  vz :: real

definition vec :: "real \<Rightarrow> real \<Rightarrow> real \<Rightarrow> vec3" where
  "vec a b c = \<lparr>vx = a, vy = b, vz = c\<rparr>"

text \<open>\<open>THREE.Vector3.multiplyScalar\<close>, \<open>lerp\<close> and \<open>distanceTo\<close>.\<close>

definition multiplyScalar :: "vec3 \<Rightarrow> real \<Rightarrow> vec3" where
  "multiplyScalar v s = vec (vx v * s) (vy v * s) (vz v * s)"

definition lerp :: "vec3 \<Rightarrow> vec3 \<Rightarrow> real \<Rightarrow> vec3" where
  "lerp this v alpha =
     vec (vx this + (vx v - vx this) * alpha)
         (vy this + (vy v - vy this) * alpha)
         (vz this + (vz v - vz this) * alpha)"

definition distanceTo :: "vec3 \<Rightarrow> vec3 \<Rightarrow> real" where
  "distanceTo a b = sqrt ((vx a - vx b)\<^sup>2 + (vy a - vy b)\<^sup>2 + (vz a - vz b)\<^sup>2)"

text \<open>
  A position that may be NaN: \<open>None\<close> is the vector whose three components are NaN.
  In \<open>part_002\<close> NaN enters through the polar angle of a scatter anchor, which is a
  factor of all three components, and \<open>lerp\<close> towards or from NaN is NaN in every
  component.
\<close>

definition lerp_nan :: "vec3 option \<Rightarrow> vec3 option \<Rightarrow> real \<Rightarrow> vec3 option" where
  "lerp_nan this v alpha =
     (case this of None \<Rightarrow> None
      | Some a \<Rightarrow> (case v of None \<Rightarrow> None | Some b \<Rightarrow> Some (lerp a b alpha)))"

record photoConfig =
  orbitRadius :: real
  orbitY :: real
  orbitPhase :: real

text \<open>
  \<open>class ParticleItem\<close>. The mesh is kept by the three fields of its transform the
  program writes: \<open>mesh.position\<close>, \<open>mesh.rotation\<close> (Euler angles; the quaternion is
  the same orientation) and \<open>mesh.scale\<close>. The type \<open>'v\<close> of positions is \<open>vec3\<close> for
  \<open>src/components/Scene.tsx\<close>, whose positions are always finite, and \<open>vec3 option\<close> for
  \<open>part_002\<close>. \<open>photoConfig\<close> is the optional field of \<open>Scene.tsx\<close> (absent in
  \<open>part_002\<close>); \<open>randomOffset\<close> exists in \<open>part_002\<close> only and is never read.
\<close>

record 'v ParticleItem =
  mesh_position :: 'v
  mesh_rotation :: vec3
  mesh_scale :: vec3
  targetPos :: 'v
  targetRot :: vec3
  targetScale :: vec3
  type :: ptype
  randomOffset :: real
  rotationSpeed :: vec3
  scatterPos :: 'v
  slotIndex :: nat
  photoConfig :: "photoConfig option"

section \<open>The integrator: \<open>ParticleItem.update\<close>\<close>

text \<open>
  \<open>Scene.tsx\<close>, lines 65-75. \<open>slerp\<close> is \<open>THREE.Quaternion.slerp\<close> towards the
  quaternion of \<open>targetRot\<close>, library code that is taken as a parameter: it maps the
  current orientation, the target orientation and the blend factor to the new orientation.
\<close>

definition update ::
  "(vec3 \<Rightarrow> vec3 \<Rightarrow> real \<Rightarrow> vec3) \<Rightarrow> SceneMode \<Rightarrow> vec3 ParticleItem \<Rightarrow> vec3 ParticleItem" where
  "update slerp m p =
     (let p1 = p\<lparr>mesh_position := lerp (mesh_position p) (targetPos p) (7/100)\<rparr>;
          p2 = p1\<lparr>mesh_rotation := slerp (mesh_rotation p1) (targetRot p1) (7/100)\<rparr>;
          p3 = p2\<lparr>mesh_scale := lerp (mesh_scale p2) (targetScale p2) (7/100)\<rparr>
      in if m = SCATTER
         then p3\<lparr>mesh_rotation :=
                   vec (vx (mesh_rotation p3) + vx (rotationSpeed p3))
                       (vy (mesh_rotation p3) + vy (rotationSpeed p3))
                       (vz (mesh_rotation p3) + vz (rotationSpeed p3))\<rparr>
         else p3)"

text \<open>\<open>part_002\<close>, lines 70-79: blend factors 0.08 and 0.1, spin about x and y only.\<close>

definition update_part002 ::
  "(vec3 \<Rightarrow> vec3 \<Rightarrow> real \<Rightarrow> vec3) \<Rightarrow> SceneMode \<Rightarrow> vec3 option ParticleItem
     \<Rightarrow> vec3 option ParticleItem" where
  "update_part002 slerp m p =
     (let p1 = p\<lparr>mesh_position := lerp_nan (mesh_position p) (targetPos p) (8/100)\<rparr>;
          p2 = p1\<lparr>mesh_rotation := slerp (mesh_rotation p1) (targetRot p1) (1/10)\<rparr>;
          p3 = p2\<lparr>mesh_scale := lerp (mesh_scale p2) (targetScale p2) (8/100)\<rparr>
      in if m = SCATTER
         then p3\<lparr>mesh_rotation :=
                   vec (vx (mesh_rotation p3) + vx (rotationSpeed p3))
                       (vy (mesh_rotation p3) + vy (rotationSpeed p3))
                       (vz (mesh_rotation p3))\<rparr>
         else p3)"

text \<open>
  \<open>N\<close> consecutive frames, the mode of each frame given by a list: the mode may change
  between the steps, only the target stays fixed.
\<close>

definition updates ::
  "(vec3 \<Rightarrow> vec3 \<Rightarrow> real \<Rightarrow> vec3) \<Rightarrow> SceneMode list \<Rightarrow> vec3 ParticleItem \<Rightarrow> vec3 ParticleItem" where
  "updates slerp modes p = foldl (\<lambda>q m. update slerp m q) p modes"

definition updates_part002 ::
  "(vec3 \<Rightarrow> vec3 \<Rightarrow> real \<Rightarrow> vec3) \<Rightarrow> SceneMode list \<Rightarrow> vec3 option ParticleItem
     \<Rightarrow> vec3 option ParticleItem" where
  "updates_part002 slerp modes p = foldl (\<lambda>q m. update_part002 slerp m q) p modes"

section \<open>The scene of \<open>src/components/Scene.tsx\<close>\<close>

text \<open>
  \<open>Math.random()\<close> is an explicit input: \<open>rnd k\<close> is the result of the \<open>k\<close>-th call
  made by the function modelled, a number in \<open>[0, 1)\<close>. \<open>performance.now()\<close> is the
  input \<open>now\<close>.

  The constructor of \<open>ParticleItem\<close>, lines 33-63. The mesh it receives is new, with
  the transform \<open>THREE.Mesh\<close> starts with: position and rotation zero, scale one. The
  scatter position uses no argument but the kind: radius and both angles are drawn at
  random. The argument of \<open>Math.acos\<close> is in \<open>[-1, 1)\<close> for every draw.
\<close>

definition constructor :: "(nat \<Rightarrow> real) \<Rightarrow> ptype \<Rightarrow> nat \<Rightarrow> vec3 ParticleItem" where
  "constructor rnd ty index =
     (let radius = (if ty = PHOTO then 12 + rnd 3 * 15 else 8 + rnd 3 * 12);
          theta = rnd 4 * pi * 2;
          phi = arccos (rnd 5 * 2 - 1)
      in \<lparr>mesh_position = vec 0 0 0, mesh_rotation = vec 0 0 0, mesh_scale = vec 1 1 1,
          targetPos = vec 0 0 0, targetRot = vec 0 0 0, targetScale = vec 1 1 1,
          type = ty, randomOffset = 0,
          rotationSpeed = vec ((rnd 0 - 5/10) * (5/100)) ((rnd 1 - 5/10) * (5/100))
                              ((rnd 2 - 5/10) * (5/100)),
          scatterPos = vec (radius * sin phi * cos theta) (radius * sin phi * sin theta)
                           (radius * cos phi),
          slotIndex = index,
          photoConfig =
            (if ty = PHOTO
             then Some \<lparr>orbitRadius = 18 + rnd 6 * 10, orbitY = - 12 + rnd 7 * 28,
                        orbitPhase = rnd 8 * pi * 2\<rparr>
             else None)\<rparr>)"

text \<open>
  \<open>stateRef.current\<close> together with the rotation of \<open>mainGroup\<close>. \<open>onModeChange\<close> is
  the state setter of \<open>App\<close>, whose value an effect copies into \<open>stateRef.current.mode\<close>;
  the model writes the mode at once. \<open>focusedPhotoIndex\<close> is an index into
  \<open>particles\<close>, \<open>-1\<close> when no focus target is set.
\<close>

record 'v SceneState =
  mode :: SceneMode
  particles :: "'v ParticleItem list"
  focusedPhotoIndex :: int
  mainGroup_rotation_x :: real
  mainGroup_rotation_y :: real

text \<open>
  \<open>particles.filter(p => p.type === 'PHOTO')\<close>. Every element of \<open>particles\<close> is an
  object of its own, and \<open>particles.indexOf(photos[k])\<close> finds that very object: the model
  keeps each element of the filtered array together with its index in \<open>particles\<close>.
  An index \<open>k\<close> outside the array reads \<open>undefined\<close>, which \<open>indexOf\<close> does not find:
  the result is \<open>-1\<close>.
\<close>

definition photos_of :: "'v ParticleItem list \<Rightarrow> (nat \<times> 'v ParticleItem) list" where
  "photos_of ps = filter (\<lambda>(i, p). type p = PHOTO) (enumerate 0 ps)"

definition indexOf_pick :: "(nat \<times> 'v ParticleItem) list \<Rightarrow> int \<Rightarrow> int" where
  "indexOf_pick photos k =
     (if 0 \<le> k \<and> k < int (length photos) then int (fst (photos ! nat k)) else - 1)"

text \<open>\<open>addPhotoToScene\<close>, lines 155-161, and the listener \<open>handleAddPhoto\<close>, lines 304-308.\<close>

definition addPhotoToScene ::
  "(nat \<Rightarrow> real) \<Rightarrow> vec3 ParticleItem list \<Rightarrow> vec3 ParticleItem list" where
  "addPhotoToScene rnd ps = ps @ [constructor rnd PHOTO (length (photos_of ps))]"

definition handleAddPhoto :: "(nat \<Rightarrow> real) \<Rightarrow> vec3 SceneState \<Rightarrow> vec3 SceneState" where
  "handleAddPhoto rnd s =
     (let s1 = s\<lparr>particles := addPhotoToScene rnd (particles s)\<rparr>;
          s2 = s1\<lparr>focusedPhotoIndex := int (length (particles s1)) - 1\<rparr>
      in s2\<lparr>mode := FOCUS\<rparr>)"

text \<open>
  \<open>calculateTargets\<close>, lines 223-264: the body of the \<open>forEach\<close> for the particle \<open>p\<close> at
  index \<open>idx\<close>, then the loop over all particles.
\<close>

definition calculateTargets_body ::
  "real \<Rightarrow> SceneMode \<Rightarrow> int \<Rightarrow> nat \<Rightarrow> vec3 ParticleItem \<Rightarrow> vec3 ParticleItem" where
  "calculateTargets_body time md fpi idx p =
     (if md = TREE then
        (if type p = DECOR then
           (let t = real (slotIndex p) / 1500;
                radius = 13 * (1 - t);
                angle = t * 50 * pi + time * (5/10)
            in p\<lparr>targetPos := vec (cos angle * radius) ((t * 32) - 15) (sin angle * radius),
                 targetRot := vec 0 (- angle) 0,
                 targetScale := vec 1 1 1\<rparr>)
         else if type p = PHOTO \<and> photoConfig p \<noteq> None then
           (case photoConfig p of
              None \<Rightarrow> p
            | Some c \<Rightarrow>
               (let angle = orbitPhase c + time * (2/10)
                in p\<lparr>targetPos := vec (cos angle * orbitRadius c) (orbitY c)
                                       (sin angle * orbitRadius c),
                     targetRot := vec 0 (- angle + pi / 2) 0,
                     targetScale := vec 1 1 1\<rparr>))
         else
           (let radius = 25 + sin (real idx) * 5;
                angle = real idx * (1/10) + time * (3/10)
            in p\<lparr>targetPos := vec (cos angle * radius) (cos (real idx * (5/10)) * 20)
                                   (sin angle * radius)\<rparr>))
      else if md = SCATTER then
        p\<lparr>targetPos := scatterPos p, targetScale := vec 1 1 1\<rparr>
      else if md = FOCUS then
        (if int idx = fpi then
           p\<lparr>targetPos := vec 0 2 35, targetRot := vec 0 0 0,
             targetScale := vec (45/10) (45/10) (45/10)\<rparr>
         else
           p\<lparr>targetPos := multiplyScalar (scatterPos p) (25/10),
             targetScale := vec (1/10) (1/10) (1/10)\<rparr>)
      else p)"

definition calculateTargets :: "real \<Rightarrow> vec3 SceneState \<Rightarrow> vec3 SceneState" where
  "calculateTargets now s =
     (let time = now * (1/1000)
      in s\<lparr>particles :=
             map (\<lambda>(idx, p). calculateTargets_body time (mode s) (focusedPhotoIndex s) idx p)
                 (enumerate 0 (particles s))\<rparr>)"

section \<open>Hand landmarks and the gestures of \<open>Scene.tsx\<close>\<close>

text \<open>
  A landmark of the detector, and a hand: the array of 21 landmarks, read by index (the
  program reads the indices 0, 4, 8, 9, 12, 16 and 20). \<open>Math.hypot\<close> is the square root
  of the sum of the squares of its arguments; \<open>THREE.MathUtils.lerp\<close> is the scalar blend.
\<close>

record landmark =
  lx :: real
  ly :: real
  lz :: real

type_synonym hand = "nat \<Rightarrow> landmark"

definition Math_hypot :: "real list \<Rightarrow> real" where
  "Math_hypot xs = sqrt (\<Sum>x\<leftarrow>xs. x\<^sup>2)"

definition MathUtils_lerp :: "real \<Rightarrow> real \<Rightarrow> real \<Rightarrow> real" where
  "MathUtils_lerp x y t = (1 - t) * x + t * y"

text \<open>
  The part of \<open>animate\<close> that reads the hand, lines 268-296. \<open>det\<close> is the first hand of
  the detection, \<open>None\<close> when the detector or the video is not ready or no hand is seen:
  then nothing is written. \<open>rnd\<close> is the one random number the PINCH branch may draw.
\<close>

definition gestures :: "real \<Rightarrow> hand option \<Rightarrow> vec3 SceneState \<Rightarrow> vec3 SceneState" where
  "gestures rnd det s =
     (case det of
        None \<Rightarrow> s
      | Some hand \<Rightarrow>
         (let s1 = s\<lparr>mainGroup_rotation_y :=
                       MathUtils_lerp (mainGroup_rotation_y s) ((lx (hand 9) - 5/10) * 4) (1/10)\<rparr>;
              s2 = s1\<lparr>mainGroup_rotation_x :=
                       MathUtils_lerp (mainGroup_rotation_x s1) ((ly (hand 9) - 5/10) * 2) (1/10)\<rparr>;
              pinchDist = Math_hypot [lx (hand 4) - lx (hand 8), ly (hand 4) - ly (hand 8)];
              tips = [8, 12, 16, 20];
              avgDist = foldl (\<lambda>sum i. sum + Math_hypot [lx (hand i) - lx (hand 0),
                                                           ly (hand i) - ly (hand 0)]) 0 tips / 4
          in if pinchDist < 5/100 then
               (if mode s2 \<noteq> FOCUS then
                  (let photos = photos_of (particles s2)
                   in if length photos > 0 then
                        (let s3 = s2\<lparr>focusedPhotoIndex :=
                                       indexOf_pick photos \<lfloor>rnd * real (length photos)\<rfloor>\<rparr>
                         in s3\<lparr>mode := FOCUS\<rparr>)
                      else s2)
                else s2)
             else if avgDist < 25/100 then s2\<lparr>mode := TREE\<rparr>
             else if avgDist > 4/10 then s2\<lparr>mode := SCATTER\<rparr>
             else s2))"

text \<open>One frame, lines 266-301; rendering is left out.\<close>

definition animate ::
  "(vec3 \<Rightarrow> vec3 \<Rightarrow> real \<Rightarrow> vec3) \<Rightarrow> real \<Rightarrow> real \<Rightarrow> hand option \<Rightarrow> vec3 SceneState
     \<Rightarrow> vec3 SceneState" where
  "animate slerp now rnd det s =
     (let s1 = gestures rnd det s;
          s2 = calculateTargets now s1
      in s2\<lparr>particles := map (update slerp (mode s2)) (particles s2)\<rparr>)"

section \<open>The scene of \<open>src/unnamed/part_002\<close>\<close>

text \<open>
  \<open>Math.acos\<close> is NaN outside \<open>[-1, 1]\<close>. \<open>scatterPos_set\<close> is
  \<open>this.scatterPos.set(...)\<close> of \<open>updateScatterPos\<close> for a polar angle that may be NaN.
\<close>

definition Math_acos :: "real \<Rightarrow> real option" where
  "Math_acos x = (if - 1 \<le> x \<and> x \<le> 1 then Some (arccos x) else None)"

definition scatterPos_set :: "real \<Rightarrow> real option \<Rightarrow> real \<Rightarrow> vec3 option" where
  "scatterPos_set radius phi theta =
     (case phi of
        None \<Rightarrow> None
      | Some ph \<Rightarrow> Some (vec (radius * sin ph * cos theta) (radius * sin ph * sin theta)
                             (radius * cos ph)))"

text \<open>
  \<open>ParticleItem.updateScatterPos\<close>, lines 42-68, for a particle of kind \<open>ty\<close>; the result
  is the new \<open>scatterPos\<close>. The first random number is drawn for every kind, the second
  for DUST only. \<open>totl\<close> is the argument \<open>total\<close>; when it is 0 the quotient
  \<open>index / total\<close> is NaN or Infinity and the polar angle NaN.
\<close>

definition updateScatterPos :: "(nat \<Rightarrow> real) \<Rightarrow> ptype \<Rightarrow> nat \<Rightarrow> nat \<Rightarrow> vec3 option" where
  "updateScatterPos rnd ty index totl =
     (let radius = 12 + rnd 0 * 8
      in if ty = PHOTO then
           (let radius = 22 + real (index mod 15) * (12/10);
                phi = Math_acos (1 - 2 * (real index / 50));
                theta = pi * (1 + sqrt 5) * real index
            in scatterPos_set radius phi theta)
         else
           (let phi = (if totl = 0 then None
                       else Math_acos (1 - 2 * (real index / real totl)));
                theta = pi * (1 + sqrt 5) * real index;
                radius = (if ty = DUST then 30 + rnd 1 * 10 else radius)
            in scatterPos_set radius phi theta))"

text \<open>The constructor, lines 28-39: four draws, then those of \<open>updateScatterPos\<close>.\<close>

definition constructor_part002 ::
  "(nat \<Rightarrow> real) \<Rightarrow> ptype \<Rightarrow> nat \<Rightarrow> vec3 option ParticleItem" where
  "constructor_part002 rnd ty index =
     \<lparr>mesh_position = Some (vec 0 0 0), mesh_rotation = vec 0 0 0, mesh_scale = vec 1 1 1,
      targetPos = Some (vec 0 0 0), targetRot = vec 0 0 0, targetScale = vec 1 1 1,
      type = ty, randomOffset = rnd 0 * pi * 2,
      rotationSpeed = multiplyScalar (vec (rnd 1) (rnd 2) (rnd 3)) (2/100),
      scatterPos = updateScatterPos (\<lambda>k. rnd (k + 4)) ty index 4000,
      slotIndex = index, photoConfig = None\<rparr>"

text \<open>\<open>addPhotoToScene\<close>, lines 128-139, and the listener \<open>handleAddPhoto\<close>, lines 284-292
  (the callback of the texture loader).\<close>

definition addPhotoToScene_part002 ::
  "(nat \<Rightarrow> real) \<Rightarrow> vec3 option ParticleItem list \<Rightarrow> vec3 option ParticleItem list" where
  "addPhotoToScene_part002 rnd ps =
     (let photoCount = length (photos_of ps);
          p = constructor_part002 rnd PHOTO photoCount;
          p1 = p\<lparr>mesh_position := Some (vec 0 (- 100) 0)\<rparr>
      in ps @ [p1])"

definition handleAddPhoto_part002 ::
  "(nat \<Rightarrow> real) \<Rightarrow> vec3 option SceneState \<Rightarrow> vec3 option SceneState" where
  "handleAddPhoto_part002 rnd s =
     (let s1 = s\<lparr>particles := addPhotoToScene_part002 rnd (particles s)\<rparr>
      in s1\<lparr>mode := FOCUS\<rparr>)"

text \<open>
  \<open>calculateTargets\<close>, lines 194-239. \<open>isMobile\<close> is fixed when the scene is built and
  gives \<open>particleCount\<close>, the number of DECOR particles. First the focus target is chosen
  or cleared (lines 197-202), then every particle gets its target.
\<close>

definition particleCount :: "bool \<Rightarrow> nat" where
  "particleCount isMobile = (if isMobile then 800 else 1500)"

definition selectFocus_part002 ::
  "real \<Rightarrow> SceneMode \<Rightarrow> vec3 option SceneState \<Rightarrow> vec3 option SceneState" where
  "selectFocus_part002 rnd currentMode s =
     (if currentMode = FOCUS \<and> focusedPhotoIndex s = - 1 then
        (let photos = photos_of (particles s)
         in s\<lparr>focusedPhotoIndex := indexOf_pick photos \<lfloor>rnd * real (length photos)\<rfloor>\<rparr>)
      else if currentMode \<noteq> FOCUS then s\<lparr>focusedPhotoIndex := - 1\<rparr>
      else s)"

definition calculateTargets_body_part002 ::
  "bool \<Rightarrow> real \<Rightarrow> SceneMode \<Rightarrow> int \<Rightarrow> nat \<Rightarrow> vec3 option ParticleItem
     \<Rightarrow> vec3 option ParticleItem" where
  "calculateTargets_body_part002 isMobile time currentMode fpi idx p =
     (if currentMode = TREE then
        (if type p = PHOTO then
           (let angle = (real (slotIndex p) * (15/10)) + time * (5/10);
                radius = 18 + sin (real (slotIndex p)) * 2;
                y = real (slotIndex p mod 5) * 6 - 8
            in p\<lparr>targetPos := Some (vec (cos angle * radius) y (sin angle * radius)),
                 targetRot := vec 0 (- angle + pi / 2) 0,
                 targetScale := vec 1 1 1\<rparr>)
         else if type p = DECOR then
           (let t = real (slotIndex p) / real (particleCount isMobile);
                radius = 13 * (1 - t);
                angle = t * 50 * pi + time * (2/10)
            in p\<lparr>targetPos := Some (vec (cos angle * radius) ((t * 32) - 12) (sin angle * radius)),
                 targetRot := vec 0 angle 0,
                 targetScale := vec 1 1 1\<rparr>)
         else
           (let angle = real idx * (1/10) + time
            in p\<lparr>targetPos := Some (vec (cos angle * 22) (sin (real idx) * 15) (sin angle * 22))\<rparr>))
      else if currentMode = SCATTER then
        p\<lparr>targetPos := scatterPos p,
          targetScale := vec (if type p = PHOTO then 12/10 else 1)
                             (if type p = PHOTO then 12/10 else 1) 1\<rparr>
      else if currentMode = FOCUS then
        (if int idx = fpi then
           p\<lparr>targetPos := Some (vec 0 2 (if isMobile then 40 else 35)),
             targetRot := vec 0 0 0,
             targetScale := vec (if isMobile then 35/10 else 45/10)
                                (if isMobile then 35/10 else 45/10) 1\<rparr>
         else
           p\<lparr>targetPos := map_option (\<lambda>v. multiplyScalar v (25/10)) (scatterPos p),
             targetScale := vec (1/10) (1/10) (1/10)\<rparr>)
      else p)"

definition calculateTargets_part002 ::
  "bool \<Rightarrow> real \<Rightarrow> real \<Rightarrow> SceneMode \<Rightarrow> vec3 option SceneState \<Rightarrow> vec3 option SceneState" where
  "calculateTargets_part002 isMobile now rnd currentMode s =
     (let time = now * (1/1000);
          s1 = selectFocus_part002 rnd currentMode s
      in s1\<lparr>particles :=
              map (\<lambda>(idx, p). calculateTargets_body_part002 isMobile time currentMode
                                 (focusedPhotoIndex s1) idx p)
                  (enumerate 0 (particles s1))\<rparr>)"

text \<open>
  The part of \<open>animate\<close> that reads the hand, lines 247-265. The chain of three
  \<open>onModeChange\<close> calls is kept as the mode it requests, \<open>None\<close> when no branch is taken.
\<close>

definition requested_part002 :: "hand \<Rightarrow> SceneMode option" where
  "requested_part002 hand =
     (let pinch = Math_hypot [lx (hand 4) - lx (hand 8), ly (hand 4) - ly (hand 8)];
          ext = (Math_hypot [lx (hand 8) - lx (hand 0), ly (hand 8) - ly (hand 0)]
                 + Math_hypot [lx (hand 12) - lx (hand 0), ly (hand 12) - ly (hand 0)]) / 2
      in if pinch < 4/100 then Some FOCUS
         else if ext < 2/10 then Some TREE
         else if ext > 35/100 then Some SCATTER
         else None)"

definition gestures_part002 ::
  "hand option \<Rightarrow> vec3 option SceneState \<Rightarrow> vec3 option SceneState" where
  "gestures_part002 det s =
     (case det of
        None \<Rightarrow> s\<lparr>mainGroup_rotation_y := mainGroup_rotation_y s + 5/1000\<rparr>
      | Some hand \<Rightarrow>
         (let s1 = s\<lparr>mainGroup_rotation_y :=
                       MathUtils_lerp (mainGroup_rotation_y s) ((lx (hand 9) - 5/10) * 4) (1/10)\<rparr>;
              s2 = s1\<lparr>mainGroup_rotation_x :=
                       MathUtils_lerp (mainGroup_rotation_x s1) ((ly (hand 9) - 5/10) * 2) (1/10)\<rparr>
          in case requested_part002 hand of
               None \<Rightarrow> s2
             | Some md \<Rightarrow> s2\<lparr>mode := md\<rparr>))"

definition animate_part002 ::
  "(vec3 \<Rightarrow> vec3 \<Rightarrow> real \<Rightarrow> vec3) \<Rightarrow> bool \<Rightarrow> real \<Rightarrow> real \<Rightarrow> hand option
     \<Rightarrow> vec3 option SceneState \<Rightarrow> vec3 option SceneState" where
  "animate_part002 slerp isMobile now rnd det s =
     (let s1 = gestures_part002 det s;
          s2 = calculateTargets_part002 isMobile now rnd (mode s1) s1
      in s2\<lparr>particles := map (update_part002 slerp (mode s2)) (particles s2)\<rparr>)"

section \<open>\<open>MediaPipeService\<close> and the \<open>Experience\<close> class\<close>

text \<open>
  \<open>MediaPipeService.detectGestures\<close>, \<open>part_004\<close> lines 442-478. The gesture is one of
  four strings. The result is what the callback receives: \<open>None\<close> when the service is not
  ready and the callback is not called, \<open>Some None\<close> for \<open>callback(null)\<close>.
\<close>

datatype gesture = NONE | PINCH | FIST | OPEN

definition detectGestures :: "bool \<Rightarrow> hand option \<Rightarrow> (gesture \<times> landmark) option option" where
  "detectGestures ready det =
     (if \<not> ready then None
      else case det of
        None \<Rightarrow> Some None
      | Some landmarks \<Rightarrow>
         (let wrist = landmarks 0;
              thumbTip = landmarks 4;
              indexTip = landmarks 8;
              fingerTips = [landmarks 12, landmarks 16, landmarks 20];
              pinchDist = Math_hypot [lx thumbTip - lx indexTip, ly thumbTip - ly indexTip,
                                      lz thumbTip - lz indexTip];
              avgDist = foldl (\<lambda>acc tip. acc + Math_hypot [lx tip - lx wrist, ly tip - ly wrist])
                          0 fingerTips / 3;
              gesture = (if pinchDist < 5/100 then PINCH
                         else if avgDist < 25/100 then FIST
                         else if avgDist > 4/10 then OPEN
                         else NONE)
          in Some (Some (gesture, landmarks 9))))"

text \<open>
  \<open>ParticleData\<close> of \<open>part_003\<close>, by the two fields \<open>setMode\<close> reads and writes, and the
  fields of \<open>Experience\<close> that \<open>setMode\<close> and \<open>updateHandData\<close> touch. \<open>focusId\<close> is the
  property \<open>setMode\<close> adds to the object, undefined before the first focus.
\<close>

datatype ParticleType =
  GOLD_BOX | GREEN_BOX | GOLD_SPHERE | RED_SPHERE | CANDY_CANE | PHOTO_TYPE | DUST_TYPE

record ParticleData =
  pd_type :: ParticleType
  pd_id :: string

record Experience =
  exp_particles :: "ParticleData list"
  exp_mode :: SceneMode
  targetRotation :: "real \<times> real"
  lastFocusChange :: real
  focusId :: "string option"

datatype error = TypeError

text \<open>
  \<open>Experience.setMode\<close>, \<open>App.tsx\<close> lines 321-341. \<open>photos[k]\<close> outside the array is
  undefined and reading its \<open>id\<close> throws; no draw in \<open>[0, 1)\<close> gets there.
\<close>

definition setMode :: "real \<Rightarrow> real \<Rightarrow> SceneMode \<Rightarrow> Experience \<Rightarrow> error + Experience" where
  "setMode now rnd md e =
     (if exp_mode e \<noteq> md then
        (let e1 = e\<lparr>exp_mode := md\<rparr>
         in if md = FOCUS then
              (let e2 = e1\<lparr>lastFocusChange := now\<rparr>;
                   photos = filter (\<lambda>p. pd_type p = PHOTO_TYPE) (exp_particles e2)
               in if length photos > 0 then
                    (let k = \<lfloor>rnd * real (length photos)\<rfloor>
                     in if 0 \<le> k \<and> k < int (length photos) then
                          (let target = photos ! nat k;
                               e3 = e2\<lparr>exp_particles :=
                                         map (\<lambda>p. if pd_id p = pd_id target
                                                  then p\<lparr>pd_type := PHOTO_TYPE\<rparr> else p)
                                             (exp_particles e2)\<rparr>
                           in Inr (e3\<lparr>focusId := Some (pd_id target)\<rparr>))
                        else Inl TypeError)
                  else Inr (e2\<lparr>exp_mode := SCATTER\<rparr>))
            else Inr e1)
      else Inr e)"

definition updateHandData :: "real \<Rightarrow> real \<Rightarrow> Experience \<Rightarrow> Experience" where
  "updateHandData x y e = e\<lparr>targetRotation := (x, y)\<rparr>"

text \<open>
  \<open>Experience.addPhotoToScene\<close>, \<open>App.tsx\<close> lines 292-315: the new entry of the
  registry has the id \<open>photo_\<close> followed by \<open>stamp\<close>, the digits of \<open>Date.now()\<close>.
  The mode is not touched.
\<close>

definition addPhotoToScene_exp :: "string \<Rightarrow> Experience \<Rightarrow> Experience" where
  "addPhotoToScene_exp stamp e =
     e\<lparr>exp_particles :=
         exp_particles e @ [\<lparr>pd_type = PHOTO_TYPE, pd_id = ''photo_'' @ stamp\<rparr>]\<rparr>"

text \<open>
  The callback the loop of \<open>App\<close> gives to \<open>detectGestures\<close>, \<open>part_001\<close> lines 53-69:
  three tests of the gesture in a row, each a call of \<open>setMode\<close>.
\<close>

definition onResults ::
  "real \<Rightarrow> real \<Rightarrow> (gesture \<times> landmark) option \<Rightarrow> Experience \<Rightarrow> error + Experience" where
  "onResults now rnd results e =
     (case results of
        None \<Rightarrow> Inr e
      | Some (gesture, center) \<Rightarrow>
         (let targetRotX = (ly center - 5/10) * (5/10);
              targetRotY = (lx center - 5/10) * (15/10);
              e1 = updateHandData targetRotX targetRotY e
          in case (if gesture = PINCH then setMode now rnd FOCUS e1 else Inr e1) of
               Inl err \<Rightarrow> Inl err
             | Inr e2 \<Rightarrow>
                (case (if gesture = FIST then setMode now rnd TREE e2 else Inr e2) of
                   Inl err \<Rightarrow> Inl err
                 | Inr e3 \<Rightarrow> (if gesture = OPEN then setMode now rnd SCATTER e3 else Inr e3))))"

section \<open>The specification's classifier and invariant\<close>

text \<open>
  The classifier as section 4.4 of the specification words it, for a hand that was
  detected: the pinch distance first, then the mean distance of the four fingertips other
  than the thumb's from the wrist, both with one and the same distance \<open>euclidean\<close>.
  The thresholds are parameters. \<open>classify_with\<close> is the same scheme with the two
  distances and the list of fingertips left open.
\<close>

definition euclidean2 :: "landmark \<Rightarrow> landmark \<Rightarrow> real" where
  "euclidean2 a b = sqrt ((lx a - lx b)\<^sup>2 + (ly a - ly b)\<^sup>2)"

definition euclidean3 :: "landmark \<Rightarrow> landmark \<Rightarrow> real" where
  "euclidean3 a b = sqrt ((lx a - lx b)\<^sup>2 + (ly a - ly b)\<^sup>2 + (lz a - lz b)\<^sup>2)"

definition classify_with ::
  "(landmark \<Rightarrow> landmark \<Rightarrow> real) \<Rightarrow> (landmark \<Rightarrow> landmark \<Rightarrow> real) \<Rightarrow> nat list
     \<Rightarrow> real \<Rightarrow> real \<Rightarrow> real \<Rightarrow> hand \<Rightarrow> gesture" where
  "classify_with pinchMetric tipMetric tips T_pinch T_fist T_open hand =
     (let pinchDistance = pinchMetric (hand 4) (hand 8)
      in if pinchDistance < T_pinch then PINCH
         else
           (let extension = (\<Sum>i\<leftarrow>tips. tipMetric (hand i) (hand 0)) / real (length tips)
            in if extension < T_fist then FIST
               else if extension > T_open then OPEN
               else NONE))"

definition spec_classify ::
  "(landmark \<Rightarrow> landmark \<Rightarrow> real) \<Rightarrow> real \<Rightarrow> real \<Rightarrow> real \<Rightarrow> hand \<Rightarrow> gesture" where
  "spec_classify euclidean T_pinch T_fist T_open hand =
     classify_with euclidean euclidean [8, 12, 16, 20] T_pinch T_fist T_open hand"

text \<open>The mode a gesture asks for (section 4.5): PINCH asks for FOCUS, FIST for TREE, OPEN
  for SCATTER, NONE for nothing.\<close>

fun request_of :: "gesture \<Rightarrow> SceneMode option" where
  "request_of PINCH = Some FOCUS"
| "request_of FIST = Some TREE"
| "request_of OPEN = Some SCATTER"
| "request_of NONE = None"

text \<open>
  The invariant of the focus target: when \<open>focusedPhotoIndex\<close> is set, it is the index
  of a particle of the registry, and that particle is a PHOTO.
\<close>

definition focusTarget_ok :: "'v SceneState \<Rightarrow> bool" where
  "focusTarget_ok s =
     (if 0 \<le> focusedPhotoIndex s
      then nat (focusedPhotoIndex s) < length (particles s)
           \<and> type (particles s ! nat (focusedPhotoIndex s)) = PHOTO
      else True)"

text \<open>
  The invariant of the mode of \<open>Experience\<close>: in FOCUS mode the registry has a PHOTO
  particle and \<open>focusId\<close> is set. The object starts in TREE mode, where it holds.
\<close>

definition focus_inv :: "Experience \<Rightarrow> bool" where
  "focus_inv e =
     (if exp_mode e = FOCUS
      then filter (\<lambda>p. pd_type p = PHOTO_TYPE) (exp_particles e) \<noteq> [] \<and> focusId e \<noteq> None
      else True)"

section \<open>The integrator converges\<close>

lemma distanceTo_lerp:
  "distanceTo (lerp a b alpha) b = \<bar>1 - alpha\<bar> * distanceTo a b"
proof -
  have "(vx a + (vx b - vx a) * alpha - vx b)\<^sup>2 + (vy a + (vy b - vy a) * alpha - vy b)\<^sup>2
          + (vz a + (vz b - vz a) * alpha - vz b)\<^sup>2
        = (1 - alpha)\<^sup>2 * ((vx a - vx b)\<^sup>2 + (vy a - vy b)\<^sup>2 + (vz a - vz b)\<^sup>2)"
    by (simp add: power2_eq_square algebra_simps)
  then show ?thesis
    by (simp add: distanceTo_def lerp_def vec_def real_sqrt_mult)
qed

lemma update_fields:
  "targetPos (update sl m p) = targetPos p"
  "targetScale (update sl m p) = targetScale p"
  "mesh_position (update sl m p) = lerp (mesh_position p) (targetPos p) (7/100)"
  "mesh_scale (update sl m p) = lerp (mesh_scale p) (targetScale p) (7/100)"
  "type (update sl m p) = type p"
  by (simp_all add: update_def Let_def)

lemma update_part002_fields:
  "targetPos (update_part002 sl m p) = targetPos p"
  "targetScale (update_part002 sl m p) = targetScale p"
  "mesh_position (update_part002 sl m p) = lerp_nan (mesh_position p) (targetPos p) (8/100)"
  "mesh_scale (update_part002 sl m p) = lerp (mesh_scale p) (targetScale p) (8/100)"
  "type (update_part002 sl m p) = type p"
  by (simp_all add: update_part002_def Let_def)

lemma updates_snoc: "updates sl (ms @ [m]) p = update sl m (updates sl ms p)"
  by (simp add: updates_def)

lemma updates_part002_snoc:
  "updates_part002 sl (ms @ [m]) p = update_part002 sl m (updates_part002 sl ms p)"
  by (simp add: updates_part002_def)

lemma updates_targets:
  "targetPos (updates sl ms p) = targetPos p \<and> targetScale (updates sl ms p) = targetScale p"
proof (induction ms rule: rev_induct)
  case Nil
  show ?case by (simp add: updates_def)
next
  case (snoc m ms)
  then show ?case by (simp add: updates_snoc update_fields)
qed

lemma updates_part002_targets:
  "targetPos (updates_part002 sl ms p) = targetPos p
   \<and> targetScale (updates_part002 sl ms p) = targetScale p"
proof (induction ms rule: rev_induct)
  case Nil
  show ?case by (simp add: updates_part002_def)
next
  case (snoc m ms)
  then show ?case by (simp add: updates_part002_snoc update_part002_fields)
qed

lemma updates_position_dist:
  "distanceTo (mesh_position (updates sl ms p)) (targetPos p)
     = distanceTo (mesh_position p) (targetPos p) * (93/100) ^ length ms"
proof (induction ms rule: rev_induct)
  case Nil
  show ?case by (simp add: updates_def)
next
  case (snoc m ms)
  have "distanceTo (mesh_position (updates sl (ms @ [m]) p)) (targetPos p)
          = \<bar>1 - 7/100\<bar> * distanceTo (mesh_position (updates sl ms p)) (targetPos p)"
    using distanceTo_lerp [of "mesh_position (updates sl ms p)" "targetPos p" "7/100"]
    by (simp add: updates_snoc update_fields updates_targets)
  then show ?case using snoc.IH by simp
qed

lemma updates_scale_dist:
  "distanceTo (mesh_scale (updates sl ms p)) (targetScale p)
     = distanceTo (mesh_scale p) (targetScale p) * (93/100) ^ length ms"
proof (induction ms rule: rev_induct)
  case Nil
  show ?case by (simp add: updates_def)
next
  case (snoc m ms)
  have "distanceTo (mesh_scale (updates sl (ms @ [m]) p)) (targetScale p)
          = \<bar>1 - 7/100\<bar> * distanceTo (mesh_scale (updates sl ms p)) (targetScale p)"
    using distanceTo_lerp [of "mesh_scale (updates sl ms p)" "targetScale p" "7/100"]
    by (simp add: updates_snoc update_fields updates_targets)
  then show ?case using snoc.IH by simp
qed

lemma updates_part002_position_dist:
  assumes "mesh_position q = Some a" and "targetPos q = Some b"
  shows "\<exists>c. mesh_position (updates_part002 sl ms q) = Some c
             \<and> distanceTo c b = distanceTo a b * (92/100) ^ length ms"
proof (induction ms rule: rev_induct)
  case Nil
  show ?case using assms by (simp add: updates_part002_def)
next
  case (snoc m ms)
  then obtain c where c: "mesh_position (updates_part002 sl ms q) = Some c"
    and d: "distanceTo c b = distanceTo a b * (92/100) ^ length ms" by blast
  have "mesh_position (updates_part002 sl (ms @ [m]) q) = Some (lerp c b (8/100))"
    using c assms(2)
    by (simp add: updates_part002_snoc update_part002_fields updates_part002_targets lerp_nan_def)
  moreover have "distanceTo (lerp c b (8/100)) b = distanceTo a b * (92/100) ^ length (ms @ [m])"
    using distanceTo_lerp [of c b "8/100"] d by simp
  ultimately show ?case by blast
qed

lemma updates_part002_scale_dist:
  "distanceTo (mesh_scale (updates_part002 sl ms q)) (targetScale q)
     = distanceTo (mesh_scale q) (targetScale q) * (92/100) ^ length ms"
proof (induction ms rule: rev_induct)
  case Nil
  show ?case by (simp add: updates_part002_def)
next
  case (snoc m ms)
  have "distanceTo (mesh_scale (updates_part002 sl (ms @ [m]) q)) (targetScale q)
          = \<bar>1 - 8/100\<bar> * distanceTo (mesh_scale (updates_part002 sl ms q)) (targetScale q)"
    using distanceTo_lerp [of "mesh_scale (updates_part002 sl ms q)" "targetScale q" "8/100"]
    by (simp add: updates_part002_snoc update_part002_fields updates_part002_targets)
  then show ?case using snoc.IH by simp
qed

text \<open>
  Claim C7. From any transform and for a target that stays fixed, \<open>N\<close> calls of
  \<open>update\<close> (whatever the mode of each call) bring position and scale to within
  \<open>(1 - alpha) ^ N\<close> times the initial distance of the target, with the blend factor
  \<open>alpha = 0.07\<close> of \<open>Scene.tsx\<close> and \<open>alpha = 0.08\<close> of \<open>part_002\<close>, where the
  position is a number as long as it starts as one and the target is one.
\<close>

theorem update_converges:
  assumes "mesh_position q = Some a" and "targetPos q = Some b"
  shows "distanceTo (mesh_position (updates slerp ms p)) (targetPos p)
           \<le> distanceTo (mesh_position p) (targetPos p) * (1 - 7/100) ^ length ms
         \<and> distanceTo (mesh_scale (updates slerp ms p)) (targetScale p)
           \<le> distanceTo (mesh_scale p) (targetScale p) * (1 - 7/100) ^ length ms
         \<and> (\<exists>c. mesh_position (updates_part002 slerp ms q) = Some c
                \<and> distanceTo c b \<le> distanceTo a b * (1 - 8/100) ^ length ms)
         \<and> distanceTo (mesh_scale (updates_part002 slerp ms q)) (targetScale q)
           \<le> distanceTo (mesh_scale q) (targetScale q) * (1 - 8/100) ^ length ms"
proof -
  have 1: "distanceTo (mesh_position (updates slerp ms p)) (targetPos p)
           \<le> distanceTo (mesh_position p) (targetPos p) * (1 - 7/100) ^ length ms"
    by (simp add: updates_position_dist)
  have 2: "distanceTo (mesh_scale (updates slerp ms p)) (targetScale p)
           \<le> distanceTo (mesh_scale p) (targetScale p) * (1 - 7/100) ^ length ms"
    by (simp add: updates_scale_dist)
  have 3: "\<exists>c. mesh_position (updates_part002 slerp ms q) = Some c
                \<and> distanceTo c b \<le> distanceTo a b * (1 - 8/100) ^ length ms"
    using updates_part002_position_dist [OF assms, of slerp ms] by auto
  have 4: "distanceTo (mesh_scale (updates_part002 slerp ms q)) (targetScale q)
           \<le> distanceTo (mesh_scale q) (targetScale q) * (1 - 8/100) ^ length ms"
    by (simp add: updates_part002_scale_dist)
  from 1 2 3 4 show ?thesis by blast
qed


theorem update_converges_witness:
  "mesh_position ((constructor_part002 (\<lambda>_. 0) DECOR 0)\<lparr>targetPos := Some (vec 3 4 0)\<rparr>)
     = Some (vec 0 0 0)
   \<and> targetPos ((constructor_part002 (\<lambda>_. 0) DECOR 0)\<lparr>targetPos := Some (vec 3 4 0)\<rparr>)
     = Some (vec 3 4 0)
   \<and> (\<exists>c. mesh_position (updates_part002 (\<lambda>a b t. b) [TREE, SCATTER]
              ((constructor_part002 (\<lambda>_. 0) DECOR 0)\<lparr>targetPos := Some (vec 3 4 0)\<rparr>)) = Some c
          \<and> distanceTo c (vec 3 4 0)
            \<le> distanceTo (vec 0 0 0) (vec 3 4 0) * (1 - 8/100) ^ length [TREE, SCATTER])"
proof -
  have h1: "mesh_position ((constructor_part002 (\<lambda>_. 0) DECOR 0)\<lparr>targetPos := Some (vec 3 4 0)\<rparr>)
     = Some (vec 0 0 0)"
    by (simp add: constructor_part002_def)
  have h2: "targetPos ((constructor_part002 (\<lambda>_. 0) DECOR 0)\<lparr>targetPos := Some (vec 3 4 0)\<rparr>)
     = Some (vec 3 4 0)"
    by simp
  show ?thesis
    using h1 h2 update_converges [OF h1 h2, of "\<lambda>a b t. b" "[TREE, SCATTER]"]
    by blast
qed

section \<open>Target computation\<close>

lemma constructor_fields:
  "type (constructor rnd ty i) = ty" "slotIndex (constructor rnd ty i) = i"
  by (simp_all add: constructor_def Let_def)

lemma calculateTargets_length:
  "length (particles (calculateTargets now s)) = length (particles s)"
  by (simp add: calculateTargets_def Let_def)

lemma calculateTargets_nth:
  "i < length (particles s) \<Longrightarrow>
   particles (calculateTargets now s) ! i
     = calculateTargets_body (now * (1/1000)) (mode s) (focusedPhotoIndex s) i (particles s ! i)"
  by (simp add: calculateTargets_def Let_def nth_enumerate_eq)

lemma calculateTargets_other:
  "mode (calculateTargets now s) = mode s"
  "focusedPhotoIndex (calculateTargets now s) = focusedPhotoIndex s"
  by (simp_all add: calculateTargets_def Let_def)

lemma calculateTargets_body_type:
  "type (calculateTargets_body time md fpi idx p) = type p"
  by (simp add: calculateTargets_body_def Let_def split: option.splits)

lemma map_enumerate_const:
  "map (\<lambda>(idx, p). f p) (enumerate n xs) = map f xs"
  by (induction xs arbitrary: n) simp_all

lemma body_focus_unset:
  "fpi < 0 \<Longrightarrow>
   calculateTargets_body time FOCUS fpi idx p
     = p\<lparr>targetPos := multiplyScalar (scatterPos p) (25/10),
         targetScale := vec (1/10) (1/10) (1/10)\<rparr>"
  by (simp add: calculateTargets_body_def)

lemma selectFocus_part002_particles:
  "particles (selectFocus_part002 rnd md s) = particles s"
  by (simp add: selectFocus_part002_def Let_def)

lemma calculateTargets_part002_length:
  "length (particles (calculateTargets_part002 isMobile now rnd md s)) = length (particles s)"
  by (simp add: calculateTargets_part002_def Let_def selectFocus_part002_particles)

lemma calculateTargets_part002_nth:
  "i < length (particles s) \<Longrightarrow>
   particles (calculateTargets_part002 isMobile now rnd md s) ! i
     = calculateTargets_body_part002 isMobile (now * (1/1000)) md
         (focusedPhotoIndex (selectFocus_part002 rnd md s)) i (particles s ! i)"
  by (simp add: calculateTargets_part002_def Let_def selectFocus_part002_particles
        nth_enumerate_eq)

lemma calculateTargets_body_part002_type:
  "type (calculateTargets_body_part002 isMobile time md fpi idx p) = type p"
  by (simp add: calculateTargets_body_part002_def Let_def)

lemma helix_radius:
  "0 \<le> r \<Longrightarrow> Math_hypot [cos a * r, sin a * r] = r"
proof -
  assume r: "0 \<le> r"
  have "(cos a * r)\<^sup>2 + (sin a * r)\<^sup>2 = ((sin a)\<^sup>2 + (cos a)\<^sup>2) * r\<^sup>2"
    by (simp only: power_mult_distrib distrib_right add.commute)
  also have "\<dots> = r\<^sup>2"
    by (simp only: sin_cos_squared_add mult_1_left)
  finally have "(cos a * r)\<^sup>2 + (sin a * r)\<^sup>2 = r\<^sup>2" .
  then show ?thesis using r by (simp add: Math_hypot_def)
qed

lemma helix_bounds:
  fixes k n :: nat
  assumes "k < n"
  shows "0 \<le> real k / real n" and "real k / real n < 1"
  using assms by simp_all

lemma body_tree_decor:
  "type p = DECOR \<Longrightarrow>
   targetPos (calculateTargets_body time TREE fpi idx p)
     = vec (cos (real (slotIndex p) / 1500 * 50 * pi + time * (5/10))
              * (13 * (1 - real (slotIndex p) / 1500)))
           (real (slotIndex p) / 1500 * 32 - 15)
           (sin (real (slotIndex p) / 1500 * 50 * pi + time * (5/10))
              * (13 * (1 - real (slotIndex p) / 1500)))"
  by (simp add: calculateTargets_body_def Let_def)

lemma body_part002_tree_decor:
  "type p = DECOR \<Longrightarrow>
   targetPos (calculateTargets_body_part002 isMobile time TREE fpi idx p)
     = Some (vec (cos (real (slotIndex p) / real (particleCount isMobile) * 50 * pi + time * (2/10))
              * (13 * (1 - real (slotIndex p) / real (particleCount isMobile))))
           (real (slotIndex p) / real (particleCount isMobile) * 32 - 12)
           (sin (real (slotIndex p) / real (particleCount isMobile) * 50 * pi + time * (2/10))
              * (13 * (1 - real (slotIndex p) / real (particleCount isMobile)))))"
  by (simp add: calculateTargets_body_part002_def Let_def)

text \<open>
  Claim C6, as the code has it. In TREE mode the target of a DECOR particle is on a helix
  with \<open>t = slotIndex / 1500\<close> (\<open>slotIndex / particleCount\<close> in \<open>part_002\<close>) and
  radius \<open>13 * (1 - t)\<close>, but its height is \<open>32 * t - 15\<close> (\<open>32 * t - 12\<close> in
  \<open>part_002\<close>): the offset is not half of the height factor 32. So for a slot index below
  the number of DECOR particles the height is in \<open>[-15, 17)\<close> (\<open>[-12, 20)\<close>), and the
  horizontal radius is \<open>13 * (1 - t)\<close>, in \<open>(0, 13]\<close>.
\<close>

theorem tree_decor_helix:
  assumes "mode s = TREE" and "i < length (particles s)"
    and "type (particles s ! i) = DECOR" and "slotIndex (particles s ! i) < 1500"
    and "j < length (particles s2)" and "type (particles s2 ! j) = DECOR"
    and "slotIndex (particles s2 ! j) < particleCount isMobile"
  shows "(let t = real (slotIndex (particles s ! i)) / 1500;
              radius = 13 * (1 - t);
              angle = t * 50 * pi + now * (1/1000) * (5/10);
              tp = targetPos (particles (calculateTargets now s) ! i)
          in tp = vec (cos angle * radius) (t * 32 - 15) (sin angle * radius)
             \<and> - 15 \<le> vy tp \<and> vy tp < 17
             \<and> Math_hypot [vx tp, vz tp] = radius \<and> 0 < radius \<and> radius \<le> 13)
       \<and> (let t = real (slotIndex (particles s2 ! j)) / real (particleCount isMobile);
              radius = 13 * (1 - t);
              angle = t * 50 * pi + now * (1/1000) * (2/10)
          in \<exists>tp. targetPos (particles (calculateTargets_part002 isMobile now rnd TREE s2) ! j)
                     = Some tp
             \<and> tp = vec (cos angle * radius) (t * 32 - 12) (sin angle * radius)
             \<and> - 12 \<le> vy tp \<and> vy tp < 20
             \<and> Math_hypot [vx tp, vz tp] = radius \<and> 0 < radius \<and> radius \<le> 13)"
proof -
  define t where "t = real (slotIndex (particles s ! i)) / 1500"
  define u where "u = real (slotIndex (particles s2 ! j)) / real (particleCount isMobile)"
  have t: "0 \<le> t" "t < 1"
    using assms(4) by (simp_all add: t_def)
  have u: "0 \<le> u" "u < 1"
    using helix_bounds [OF assms(7)] by (simp_all add: u_def)
  have tp: "targetPos (particles (calculateTargets now s) ! i)
        = vec (cos (t * 50 * pi + now * (1/1000) * (5/10)) * (13 * (1 - t))) (t * 32 - 15)
              (sin (t * 50 * pi + now * (1/1000) * (5/10)) * (13 * (1 - t)))"
    using assms(1,2,3) by (simp add: calculateTargets_nth body_tree_decor t_def)
  have up: "targetPos (particles (calculateTargets_part002 isMobile now rnd TREE s2) ! j)
        = Some (vec (cos (u * 50 * pi + now * (1/1000) * (2/10)) * (13 * (1 - u))) (u * 32 - 12)
              (sin (u * 50 * pi + now * (1/1000) * (2/10)) * (13 * (1 - u))))"
    using assms(5,6) by (simp add: calculateTargets_part002_nth body_part002_tree_decor u_def)
  have rt: "Math_hypot [cos (t * 50 * pi + now * (1/1000) * (5/10)) * (13 * (1 - t)),
                        sin (t * 50 * pi + now * (1/1000) * (5/10)) * (13 * (1 - t))]
              = 13 * (1 - t)"
    using t by (intro helix_radius) simp
  have ru: "Math_hypot [cos (u * 50 * pi + now * (1/1000) * (2/10)) * (13 * (1 - u)),
                        sin (u * 50 * pi + now * (1/1000) * (2/10)) * (13 * (1 - u))]
              = 13 * (1 - u)"
    using u by (intro helix_radius) simp
  have first: "(let t = real (slotIndex (particles s ! i)) / 1500;
              radius = 13 * (1 - t);
              angle = t * 50 * pi + now * (1/1000) * (5/10);
              tp = targetPos (particles (calculateTargets now s) ! i)
          in tp = vec (cos angle * radius) (t * 32 - 15) (sin angle * radius)
             \<and> - 15 \<le> vy tp \<and> vy tp < 17
             \<and> Math_hypot [vx tp, vz tp] = radius \<and> 0 < radius \<and> radius \<le> 13)"
    unfolding Let_def t_def [symmetric] tp using t rt by (simp add: vec_def)
  have second: "(let t = real (slotIndex (particles s2 ! j)) / real (particleCount isMobile);
              radius = 13 * (1 - t);
              angle = t * 50 * pi + now * (1/1000) * (2/10)
          in \<exists>tp. targetPos (particles (calculateTargets_part002 isMobile now rnd TREE s2) ! j)
                     = Some tp
             \<and> tp = vec (cos angle * radius) (t * 32 - 12) (sin angle * radius)
             \<and> - 12 \<le> vy tp \<and> vy tp < 20
             \<and> Math_hypot [vx tp, vz tp] = radius \<and> 0 < radius \<and> radius \<le> 13)"
    unfolding Let_def u_def [symmetric] up using u ru by (simp add: vec_def)
  from first second show ?thesis by blast
qed


theorem tree_decor_helix_witness:
  "mode \<lparr>mode = TREE, particles = [constructor (\<lambda>_. 1/2) DECOR 750], focusedPhotoIndex = - 1,
         mainGroup_rotation_x = 0, mainGroup_rotation_y = 0\<rparr> = TREE
   \<and> type ([constructor (\<lambda>_. 1/2) DECOR 750] ! 0) = DECOR
   \<and> slotIndex ([constructor (\<lambda>_. 1/2) DECOR 750] ! 0) < 1500
   \<and> type ([constructor_part002 (\<lambda>_. 0) DECOR 400] ! 0) = DECOR
   \<and> slotIndex ([constructor_part002 (\<lambda>_. 0) DECOR 400] ! 0) < particleCount True
   \<and> vy (targetPos (particles (calculateTargets 0
         \<lparr>mode = TREE, particles = [constructor (\<lambda>_. 1/2) DECOR 750], focusedPhotoIndex = - 1,
          mainGroup_rotation_x = 0, mainGroup_rotation_y = 0\<rparr>) ! 0)) = 1
   \<and> Math_hypot
        [vx (targetPos (particles (calculateTargets 0
           \<lparr>mode = TREE, particles = [constructor (\<lambda>_. 1/2) DECOR 750], focusedPhotoIndex = - 1,
            mainGroup_rotation_x = 0, mainGroup_rotation_y = 0\<rparr>) ! 0)),
         vz (targetPos (particles (calculateTargets 0
           \<lparr>mode = TREE, particles = [constructor (\<lambda>_. 1/2) DECOR 750], focusedPhotoIndex = - 1,
            mainGroup_rotation_x = 0, mainGroup_rotation_y = 0\<rparr>) ! 0))] = 13/2
   \<and> (\<exists>tp. targetPos (particles (calculateTargets_part002 True 0 0 TREE
         \<lparr>mode = TREE, particles = [constructor_part002 (\<lambda>_. 0) DECOR 400],
          focusedPhotoIndex = - 1, mainGroup_rotation_x = 0, mainGroup_rotation_y = 0\<rparr>) ! 0)
          = Some tp \<and> vy tp = 4 \<and> Math_hypot [vx tp, vz tp] = 13/2)"
proof -
  let ?s = "\<lparr>mode = TREE, particles = [constructor (\<lambda>_. 1/2) DECOR 750], focusedPhotoIndex = - 1,
         mainGroup_rotation_x = 0, mainGroup_rotation_y = 0\<rparr>"
  let ?s2 = "\<lparr>mode = TREE, particles = [constructor_part002 (\<lambda>_. 0) DECOR 400],
          focusedPhotoIndex = - 1, mainGroup_rotation_x = 0, mainGroup_rotation_y = 0\<rparr>"
  have h1: "mode ?s = TREE" by simp
  have h2: "0 < length (particles ?s)" by simp
  have h3: "type (particles ?s ! 0) = DECOR" by (simp add: constructor_def)
  have h4: "slotIndex (particles ?s ! 0) < 1500" by (simp add: constructor_def)
  have h5: "0 < length (particles ?s2)" by simp
  have h6: "type (particles ?s2 ! 0) = DECOR" by (simp add: constructor_part002_def)
  have h7: "slotIndex (particles ?s2 ! 0) < particleCount True"
    by (simp add: constructor_part002_def particleCount_def)
  have sl: "slotIndex (constructor (\<lambda>_. 1/2) DECOR 750) = 750"
     "slotIndex (constructor_part002 (\<lambda>_. 0) DECOR 400) = 400"
    by (simp_all add: constructor_def constructor_part002_def)
  show ?thesis
    using h1 h3 h4 h6 h7 tree_decor_helix [OF h1 h2 h3 h4 h5 h6 h7, of 0 0]
    by (simp add: Let_def sl particleCount_def vec_def)
qed

text \<open>
  The claim as stated fails in \<open>Scene.tsx\<close>: at \<open>slotIndex = 750\<close> (\<open>t = 1/2\<close>) the
  height is 1, while \<open>t * H - H / 2\<close> is 0 for every \<open>H\<close>; and at \<open>slotIndex = 1499\<close>
  the height is above 16, half of the factor 32.
\<close>

theorem tree_decor_height_counterexample:
  "\<not> (\<exists>H. vy (targetPos (particles (calculateTargets 0
         \<lparr>mode = TREE, particles = [constructor (\<lambda>_. 1/2) DECOR 750], focusedPhotoIndex = - 1,
          mainGroup_rotation_x = 0, mainGroup_rotation_y = 0\<rparr>) ! 0))
        = (750 / 1500) * H - H / 2)
   \<and> vy (targetPos (particles (calculateTargets 0
         \<lparr>mode = TREE, particles = [constructor (\<lambda>_. 1/2) DECOR 1499], focusedPhotoIndex = - 1,
          mainGroup_rotation_x = 0, mainGroup_rotation_y = 0\<rparr>) ! 0)) = 6367 / 375
   \<and> (6367 / 375 :: real) > 32 / 2"
  by (simp add: calculateTargets_def calculateTargets_body_def constructor_def Let_def vec_def)

text \<open>
  Claim C10. In FOCUS mode with no focus target (\<open>focusedPhotoIndex = -1\<close>, the value
  the state starts with) \<open>calculateTargets\<close> gives every particle, PHOTO or not, the
  push-away target: its scatter position times 2.5 and the scale 0.1. No particle gets
  the presentation slot with its scale 4.5, and nothing else of the state changes.
\<close>

theorem focus_unset_pushes_all_away:
  assumes "mode s = FOCUS" and "focusedPhotoIndex s = - 1"
  shows "calculateTargets now s
           = s\<lparr>particles :=
                 map (\<lambda>p. p\<lparr>targetPos := multiplyScalar (scatterPos p) (25/10),
                            targetScale := vec (1/10) (1/10) (1/10)\<rparr>) (particles s)\<rparr>
         \<and> list_all (\<lambda>p. targetScale p \<noteq> vec (45/10) (45/10) (45/10))
              (particles (calculateTargets now s))"
proof -
  have eq: "calculateTargets now s
           = s\<lparr>particles :=
                 map (\<lambda>p. p\<lparr>targetPos := multiplyScalar (scatterPos p) (25/10),
                            targetScale := vec (1/10) (1/10) (1/10)\<rparr>) (particles s)\<rparr>"
    using assms by (simp add: calculateTargets_def Let_def body_focus_unset map_enumerate_const)
  have "vec (1/10) (1/10) (1/10) \<noteq> vec (45/10) (45/10) (45/10)"
    by (simp add: vec_def)
  then have "list_all (\<lambda>p. targetScale p \<noteq> vec (45/10) (45/10) (45/10))
              (particles (calculateTargets now s))"
    by (simp add: eq list_all_iff)
  with eq show ?thesis by blast
qed

theorem focus_unset_pushes_all_away_witness:
  "mode \<lparr>mode = FOCUS, particles = [constructor (\<lambda>_. 1/2) PHOTO 0, constructor (\<lambda>_. 1/2) DECOR 0],
         focusedPhotoIndex = - 1, mainGroup_rotation_x = 0, mainGroup_rotation_y = 0\<rparr> = FOCUS
   \<and> map targetPos (particles (calculateTargets 0
         \<lparr>mode = FOCUS, particles = [constructor (\<lambda>_. 1/2) PHOTO 0, constructor (\<lambda>_. 1/2) DECOR 0],
          focusedPhotoIndex = - 1, mainGroup_rotation_x = 0, mainGroup_rotation_y = 0\<rparr>))
      = [vec (- (195/4)) 0 0, vec (- 35) 0 0]
   \<and> map targetScale (particles (calculateTargets 0
         \<lparr>mode = FOCUS, particles = [constructor (\<lambda>_. 1/2) PHOTO 0, constructor (\<lambda>_. 1/2) DECOR 0],
          focusedPhotoIndex = - 1, mainGroup_rotation_x = 0, mainGroup_rotation_y = 0\<rparr>))
      = [vec (1/10) (1/10) (1/10), vec (1/10) (1/10) (1/10)]"
  using focus_unset_pushes_all_away [of
         "\<lparr>mode = FOCUS, particles = [constructor (\<lambda>_. 1/2) PHOTO 0, constructor (\<lambda>_. 1/2) DECOR 0],
          focusedPhotoIndex = - 1, mainGroup_rotation_x = 0, mainGroup_rotation_y = 0\<rparr>" 0]
  by (simp add: constructor_def multiplyScalar_def vec_def)

section \<open>Scatter anchors\<close>

lemma updateScatterPos_PHOTO:
  "updateScatterPos rnd PHOTO index totl
     = scatterPos_set (22 + real (index mod 15) * (12/10))
         (Math_acos (1 - 2 * (real index / 50))) (pi * (1 + sqrt 5) * real index)"
  by (simp add: updateScatterPos_def Let_def)

lemma updateScatterPos_draws:
  "rnd 0 = rnd' 0 \<Longrightarrow> rnd 1 = rnd' 1 \<Longrightarrow>
   updateScatterPos rnd ty index totl = updateScatterPos rnd' ty index totl"
  by (simp add: updateScatterPos_def Let_def)

lemma constructor_scatterPos:
  "rnd 3 = rnd' 3 \<Longrightarrow> rnd 4 = rnd' 4 \<Longrightarrow> rnd 5 = rnd' 5 \<Longrightarrow>
   scatterPos (constructor rnd ty i) = scatterPos (constructor rnd' ty j)"
  by (simp add: constructor_def Let_def)

text \<open>
  Claim C8, as the code has it. The scatter anchor is a function of the kind, the slot
  index, the total and the random numbers drawn: \<open>updateScatterPos\<close> of \<open>part_002\<close>
  returns the same anchor for the same arguments and the same two draws, and for a PHOTO
  the anchor depends on the slot index alone, neither on the draws nor on the total. In
  \<open>Scene.tsx\<close> the anchor made by the constructor depends on the kind and on three draws,
  not on the slot index.
\<close>

theorem anchor_function_of_draws:
  assumes "rnd 0 = rnd' 0" and "rnd 1 = rnd' 1"
    and "r 3 = r' 3" and "r 4 = r' 4" and "r 5 = r' 5"
  shows "updateScatterPos rnd ty index totl = updateScatterPos rnd' ty index totl
       \<and> updateScatterPos rnd1 PHOTO slot totl1 = updateScatterPos rnd2 PHOTO slot totl2
       \<and> scatterPos (constructor r kind i) = scatterPos (constructor r' kind j)"
proof -
  have a: "updateScatterPos rnd ty index totl = updateScatterPos rnd' ty index totl"
    using assms(1,2) by (rule updateScatterPos_draws)
  have b: "updateScatterPos rnd1 PHOTO slot totl1 = updateScatterPos rnd2 PHOTO slot totl2"
    by (simp only: updateScatterPos_PHOTO)
  have c: "scatterPos (constructor r kind i) = scatterPos (constructor r' kind j)"
    using assms(3,4,5) by (rule constructor_scatterPos)
  from a b c show ?thesis by blast
qed

theorem anchor_function_of_draws_witness:
  "updateScatterPos (\<lambda>k. if k < 2 then 1/2 else 0) DUST 0 4000
     = updateScatterPos (\<lambda>k. 1/2) DUST 0 4000
   \<and> updateScatterPos (\<lambda>k. 0) PHOTO 3 4000 = updateScatterPos (\<lambda>k. 1/2) PHOTO 3 50
   \<and> scatterPos (constructor (\<lambda>k. if 3 \<le> k \<and> k \<le> 5 then 1/2 else 0) DECOR 0)
     = scatterPos (constructor (\<lambda>k. 1/2) DECOR 7)"
proof -
  have h1: "(\<lambda>k::nat. if k < 2 then 1/2 else (0::real)) 0 = (\<lambda>k. 1/2) 0" by simp
  have h2: "(\<lambda>k::nat. if k < 2 then 1/2 else (0::real)) 1 = (\<lambda>k. 1/2) 1" by simp
  have h3: "(\<lambda>k::nat. if 3 \<le> k \<and> k \<le> 5 then 1/2 else (0::real)) 3 = (\<lambda>k. 1/2) 3" by simp
  have h4: "(\<lambda>k::nat. if 3 \<le> k \<and> k \<le> 5 then 1/2 else (0::real)) 4 = (\<lambda>k. 1/2) 4" by simp
  have h5: "(\<lambda>k::nat. if 3 \<le> k \<and> k \<le> 5 then 1/2 else (0::real)) 5 = (\<lambda>k. 1/2) 5" by simp
  show ?thesis
    using anchor_function_of_draws [OF h1 h2 h3 h4 h5, where ty = DUST and index = 0
            and totl = 4000 and ?rnd1.0 = "\<lambda>k. 0" and slot = 3 and ?totl1.0 = 4000
            and ?rnd2.0 = "\<lambda>k. 1/2" and ?totl2.0 = 50 and kind = DECOR and i = 0 and j = 7]
    by blast
qed

text \<open>
  The claim as stated fails: two calls for the DECOR particle of slot 0 with the total
  4000, the first drawing 0 and the second 1/2, return the anchors \<open>(0, 0, 12)\<close> and
  \<open>(0, 0, 16)\<close>.
\<close>

theorem anchor_purity_counterexample:
  "updateScatterPos (\<lambda>k. 0) DECOR 0 4000 = Some (vec 0 0 12)
   \<and> updateScatterPos (\<lambda>k. 1/2) DECOR 0 4000 = Some (vec 0 0 16)
   \<and> updateScatterPos (\<lambda>k. 0) DECOR 0 4000 \<noteq> updateScatterPos (\<lambda>k. 1/2) DECOR 0 4000"
  by (simp add: updateScatterPos_def Let_def Math_acos_def scatterPos_set_def vec_def)

text \<open>
  Claim C9, as the code has it. For a kind with one particle (\<open>total = 1\<close>, slot 0)
  \<open>updateScatterPos\<close> divides by 1, not by 0, and returns the pole on the z axis,
  \<open>(0, 0, radius)\<close>, a point whose components are numbers: the radius is 22 for a PHOTO,
  \<open>30 + 10 * r\<close> for DUST and \<open>12 + 8 * r\<close> for DECOR, \<open>r\<close> the random number drawn.
\<close>

theorem anchor_single_particle:
  "updateScatterPos rnd ty 0 1
     = Some (vec 0 0 (if ty = PHOTO then 22 else if ty = DUST then 30 + rnd 1 * 10
                      else 12 + rnd 0 * 8))"
proof -
  have phi: "Math_acos (1 - 2 * (real 0 / real 1)) = Some 0"
    and phi_photo: "Math_acos (1 - 2 * (real 0 / 50)) = Some 0"
    by (simp_all add: Math_acos_def)
  have pole: "scatterPos_set radius (Some 0) theta = Some (vec 0 0 radius)" for radius theta
    by (simp add: scatterPos_set_def)
  show ?thesis
  proof (cases ty)
    case PHOTO
    then show ?thesis
      using phi_photo pole [of 22 0] by (simp add: updateScatterPos_def Let_def)
  next
    case DUST
    then show ?thesis
      using phi pole [of "30 + rnd 1 * 10" 0] by (simp add: updateScatterPos_def Let_def)
  next
    case DECOR
    then show ?thesis
      using phi pole [of "12 + rnd 0 * 8" 0] by (simp add: updateScatterPos_def Let_def)
  qed
qed

text \<open>
  The claim as stated fails: the pole returned is on the z axis, not \<open>(0, radius, 0)\<close>.
\<close>

theorem anchor_pole_counterexample:
  "updateScatterPos (\<lambda>k. 0) DECOR 0 1 = Some (vec 0 0 12)
   \<and> updateScatterPos (\<lambda>k. 0) DECOR 0 1 \<noteq> Some (vec 0 12 0)"
  by (simp add: updateScatterPos_def Let_def Math_acos_def scatterPos_set_def vec_def)

section \<open>Gestures\<close>

lemma Math_hypot_euclidean2:
  "Math_hypot [lx a - lx b, ly a - ly b] = euclidean2 a b"
  by (simp add: Math_hypot_def euclidean2_def)

lemma Math_hypot_euclidean3:
  "Math_hypot [lx a - lx b, ly a - ly b, lz a - lz b] = euclidean3 a b"
  by (simp add: Math_hypot_def euclidean3_def)

lemma Math_hypot_axis:
  "Math_hypot [a, 0] = \<bar>a\<bar>" "Math_hypot [a, 0, 0] = \<bar>a\<bar>"
  "Math_hypot [0, b] = \<bar>b\<bar>" "Math_hypot [0, b, 0] = \<bar>b\<bar>"
  by (simp_all add: Math_hypot_def)

lemma euclidean_axis:
  "lx a = lx b \<Longrightarrow> euclidean2 a b = \<bar>ly a - ly b\<bar>"
  "lx a = lx b \<Longrightarrow> lz a = lz b \<Longrightarrow> euclidean3 a b = \<bar>ly a - ly b\<bar>"
  by (simp_all add: euclidean2_def euclidean3_def)

text \<open>The hand part of \<open>animate\<close>, by the gesture the specification's classifier gives.\<close>

lemma gestures_classified:
  "gestures rnd (Some hand) s =
     (let s2 = s\<lparr>mainGroup_rotation_y :=
                   MathUtils_lerp (mainGroup_rotation_y s) ((lx (hand 9) - 5/10) * 4) (1/10),
                 mainGroup_rotation_x :=
                   MathUtils_lerp (mainGroup_rotation_x s) ((ly (hand 9) - 5/10) * 2) (1/10)\<rparr>
      in case spec_classify euclidean2 (5/100) (25/100) (4/10) hand of
           PINCH \<Rightarrow>
             (if mode s \<noteq> FOCUS \<and> photos_of (particles s) \<noteq> []
              then s2\<lparr>focusedPhotoIndex :=
                        indexOf_pick (photos_of (particles s))
                          \<lfloor>rnd * real (length (photos_of (particles s)))\<rfloor>,
                      mode := FOCUS\<rparr>
              else s2)
         | FIST \<Rightarrow> s2\<lparr>mode := TREE\<rparr>
         | OPEN \<Rightarrow> s2\<lparr>mode := SCATTER\<rparr>
         | NONE \<Rightarrow> s2)"
  by (simp add: gestures_def spec_classify_def classify_with_def Let_def Math_hypot_euclidean2)

lemma detectGestures_classified:
  "detectGestures True (Some hand)
     = Some (Some (classify_with euclidean3 euclidean2 [12, 16, 20] (5/100) (25/100) (4/10) hand,
                   hand 9))"
  by (simp add: detectGestures_def classify_with_def Let_def Math_hypot_euclidean2
        Math_hypot_euclidean3)

text \<open>
  Claim C2, as the code has it. In \<open>Scene.tsx\<close> the frame of a detected hand is handled as
  the specification's classifier says, with the planar distance for both measures, the four
  fingertips 8, 12, 16 and 20 and the thresholds 0.05, 0.25 and 0.4: PINCH first (FOCUS, when
  the mode is not FOCUS already and a PHOTO exists), then FIST (TREE), OPEN (SCATTER), and
  no change of mode otherwise. \<open>MediaPipeService.detectGestures\<close> has the same order and
  thresholds, but measures the pinch in space and the extension in the plane, as the mean
  over the three fingertips 12, 16 and 20 (the index finger left out).
\<close>

theorem classification_as_coded:
  "mode (gestures rnd (Some hand) s)
     = (case spec_classify euclidean2 (5/100) (25/100) (4/10) hand of
          PINCH \<Rightarrow> (if mode s \<noteq> FOCUS \<and> photos_of (particles s) \<noteq> [] then FOCUS else mode s)
        | FIST \<Rightarrow> TREE
        | OPEN \<Rightarrow> SCATTER
        | NONE \<Rightarrow> mode s)
   \<and> detectGestures True (Some hand)
     = Some (Some (classify_with euclidean3 euclidean2 [12, 16, 20] (5/100) (25/100) (4/10) hand,
                   hand 9))"
proof -
  have "mode (gestures rnd (Some hand) s)
     = (case spec_classify euclidean2 (5/100) (25/100) (4/10) hand of
          PINCH \<Rightarrow> (if mode s \<noteq> FOCUS \<and> photos_of (particles s) \<noteq> [] then FOCUS else mode s)
        | FIST \<Rightarrow> TREE
        | OPEN \<Rightarrow> SCATTER
        | NONE \<Rightarrow> mode s)"
    by (simp add: gestures_classified Let_def split: gesture.split)
  then show ?thesis
    by (simp only: detectGestures_classified simp_thms)
qed

text \<open>
  The claim as stated fails for \<open>MediaPipeService\<close>: a pointing hand, with the wrist at
  height 0.9, the index fingertip at 0.3, the other three fingertips curled to 0.75 and the
  thumb tip at 0.8, is a FIST for \<open>detectGestures\<close> (mean of three: 0.15), and no gesture
  for the classifier of the claim (mean of four: 0.2625), in the plane and in space, with
  the upper and with the lower thresholds.
\<close>

theorem classification_counterexample:
  "detectGestures True
     (Some (\<lambda>i. if i = 0 then \<lparr>lx = 5/10, ly = 9/10, lz = 0\<rparr>
            else if i = 8 then \<lparr>lx = 5/10, ly = 3/10, lz = 0\<rparr>
            else if i = 12 \<or> i = 16 \<or> i = 20 then \<lparr>lx = 5/10, ly = 75/100, lz = 0\<rparr>
            else \<lparr>lx = 5/10, ly = 8/10, lz = 0\<rparr>))
     = Some (Some (FIST, \<lparr>lx = 5/10, ly = 8/10, lz = 0\<rparr>))
   \<and> spec_classify euclidean2 (5/100) (25/100) (4/10)
       (\<lambda>i. if i = 0 then \<lparr>lx = 5/10, ly = 9/10, lz = 0\<rparr>
            else if i = 8 then \<lparr>lx = 5/10, ly = 3/10, lz = 0\<rparr>
            else if i = 12 \<or> i = 16 \<or> i = 20 then \<lparr>lx = 5/10, ly = 75/100, lz = 0\<rparr>
            else \<lparr>lx = 5/10, ly = 8/10, lz = 0\<rparr>) = NONE
   \<and> spec_classify euclidean3 (5/100) (25/100) (4/10)
       (\<lambda>i. if i = 0 then \<lparr>lx = 5/10, ly = 9/10, lz = 0\<rparr>
            else if i = 8 then \<lparr>lx = 5/10, ly = 3/10, lz = 0\<rparr>
            else if i = 12 \<or> i = 16 \<or> i = 20 then \<lparr>lx = 5/10, ly = 75/100, lz = 0\<rparr>
            else \<lparr>lx = 5/10, ly = 8/10, lz = 0\<rparr>) = NONE
   \<and> spec_classify euclidean2 (4/100) (2/10) (35/100)
       (\<lambda>i. if i = 0 then \<lparr>lx = 5/10, ly = 9/10, lz = 0\<rparr>
            else if i = 8 then \<lparr>lx = 5/10, ly = 3/10, lz = 0\<rparr>
            else if i = 12 \<or> i = 16 \<or> i = 20 then \<lparr>lx = 5/10, ly = 75/100, lz = 0\<rparr>
            else \<lparr>lx = 5/10, ly = 8/10, lz = 0\<rparr>) = NONE
   \<and> spec_classify euclidean3 (4/100) (2/10) (35/100)
       (\<lambda>i. if i = 0 then \<lparr>lx = 5/10, ly = 9/10, lz = 0\<rparr>
            else if i = 8 then \<lparr>lx = 5/10, ly = 3/10, lz = 0\<rparr>
            else if i = 12 \<or> i = 16 \<or> i = 20 then \<lparr>lx = 5/10, ly = 75/100, lz = 0\<rparr>
            else \<lparr>lx = 5/10, ly = 8/10, lz = 0\<rparr>) = NONE"
  by (simp add: detectGestures_def spec_classify_def classify_with_def Let_def
        Math_hypot_axis euclidean_axis)

section \<open>Requests for FOCUS and for the current mode\<close>

lemma gestures_pinch_no_photo:
  assumes "photos_of (particles s) = []"
    and "Math_hypot [lx (hand 4) - lx (hand 8), ly (hand 4) - ly (hand 8)] < 5/100"
  shows "mode (gestures r (Some hand) s) = mode s"
    and "focusedPhotoIndex (gestures r (Some hand) s) = focusedPhotoIndex s"
    and "particles (gestures r (Some hand) s) = particles s"
  using assms by (simp_all add: gestures_def Let_def)

lemma setMode_same: "setMode now rnd (exp_mode e) e = Inr e"
  by (simp add: setMode_def)

lemma setMode_FOCUS_no_photo:
  assumes "filter (\<lambda>p. pd_type p = PHOTO_TYPE) (exp_particles e) = []"
    and "exp_mode e \<noteq> FOCUS"
  shows "setMode now rnd FOCUS e = Inr (e\<lparr>exp_mode := SCATTER, lastFocusChange := now\<rparr>)"
  using assms by (simp add: setMode_def Let_def)

text \<open>
  \<open>focus_inv\<close> holds when the object is made, and every method keeps it: FOCUS with an
  empty list of photos, or with no focus target, does not arise.
\<close>

lemma focus_inv_start: "exp_mode e = TREE \<Longrightarrow> focus_inv e"
  by (simp add: focus_inv_def)

lemma focus_inv_updateHandData: "focus_inv (updateHandData x y e) = focus_inv e"
  by (simp add: focus_inv_def updateHandData_def)

lemma focus_inv_addPhotoToScene: "focus_inv e \<Longrightarrow> focus_inv (addPhotoToScene_exp stamp e)"
  by (simp add: focus_inv_def addPhotoToScene_exp_def split: if_splits)

lemma photos_after_tagging:
  assumes "filter (\<lambda>p. pd_type p = PHOTO_TYPE) ps \<noteq> []"
  shows "filter (\<lambda>p. pd_type p = PHOTO_TYPE)
           (map (\<lambda>p. if pd_id p = i then p\<lparr>pd_type := PHOTO_TYPE\<rparr> else p) ps) \<noteq> []"
proof -
  from assms obtain p where p: "p \<in> set ps" "pd_type p = PHOTO_TYPE"
    by (auto simp: filter_empty_conv)
  let ?f = "\<lambda>p. if pd_id p = i then p\<lparr>pd_type := PHOTO_TYPE\<rparr> else p"
  have "?f p \<in> set (map ?f ps)" using p(1) by (rule imageI [of p "set ps" ?f, folded set_map])
  moreover have "pd_type (?f p) = PHOTO_TYPE" using p(2) by simp
  ultimately show ?thesis by (auto simp only: filter_empty_conv)
qed

lemma focus_inv_setMode:
  assumes "focus_inv e" and "setMode now rnd md e = Inr e'"
  shows "focus_inv e'"
proof (cases "exp_mode e = md")
  case True
  with assms show ?thesis by (simp add: setMode_def)
next
  case differ: False
  show ?thesis
  proof (cases "md = FOCUS")
    case False
    with differ assms(2) show ?thesis by (auto simp: setMode_def Let_def focus_inv_def)
  next
    case True
    show ?thesis
    proof (cases "filter (\<lambda>p. pd_type p = PHOTO_TYPE) (exp_particles e) = []")
      case True
      with differ \<open>md = FOCUS\<close> assms(2) show ?thesis
        by (auto simp: setMode_FOCUS_no_photo focus_inv_def)
    next
      case False
      from photos_after_tagging [OF this] differ \<open>md = FOCUS\<close> False assms(2) show ?thesis
        by (auto simp: setMode_def Let_def focus_inv_def split: if_splits)
    qed
  qed
qed

text \<open>
  Claim C1, as the code has it. A request for FOCUS made while the registry has no PHOTO
  particle is rejected, and FOCUS is not entered. \<open>Experience.setMode\<close> (also when called
  for a PINCH by the loop of \<open>App\<close>) leaves the mode SCATTER and the focus target as it
  was. The PINCH branch of \<open>animate\<close> in \<open>Scene.tsx\<close> changes neither the mode nor
  \<open>focusedPhotoIndex\<close>: the mode stays what it was, SCATTER only if it was SCATTER.
\<close>

theorem focus_rejected_without_photos:
  assumes "focus_inv e"
    and "filter (\<lambda>p. pd_type p = PHOTO_TYPE) (exp_particles e) = []"
    and "photos_of (particles s) = []"
    and "Math_hypot [lx (hand 4) - lx (hand 8), ly (hand 4) - ly (hand 8)] < 5/100"
  shows "(\<exists>e'. setMode now rnd FOCUS e = Inr e' \<and> exp_mode e' = SCATTER
               \<and> focusId e' = focusId e \<and> exp_particles e' = exp_particles e)
       \<and> (\<exists>e'. onResults now rnd (Some (PINCH, center)) e = Inr e' \<and> exp_mode e' = SCATTER
               \<and> focusId e' = focusId e \<and> exp_particles e' = exp_particles e)
       \<and> mode (gestures r (Some hand) s) = mode s
       \<and> focusedPhotoIndex (gestures r (Some hand) s) = focusedPhotoIndex s
       \<and> particles (gestures r (Some hand) s) = particles s"
proof -
  have nf: "exp_mode e \<noteq> FOCUS"
    using assms(1,2) by (auto simp: focus_inv_def)
  have a: "\<exists>e'. setMode now rnd FOCUS e = Inr e' \<and> exp_mode e' = SCATTER
               \<and> focusId e' = focusId e \<and> exp_particles e' = exp_particles e"
    using setMode_FOCUS_no_photo [OF assms(2) nf] by simp
  have "filter (\<lambda>p. pd_type p = PHOTO_TYPE) (exp_particles (updateHandData x y e)) = []"
       "exp_mode (updateHandData x y e) \<noteq> FOCUS" for x y
    using assms(2) nf by (simp_all add: updateHandData_def)
  then have "setMode now rnd FOCUS (updateHandData x y e)
      = Inr ((updateHandData x y e)\<lparr>exp_mode := SCATTER, lastFocusChange := now\<rparr>)" for x y
    by (rule setMode_FOCUS_no_photo)
  then have b: "\<exists>e'. onResults now rnd (Some (PINCH, center)) e = Inr e' \<and> exp_mode e' = SCATTER
               \<and> focusId e' = focusId e \<and> exp_particles e' = exp_particles e"
    by (simp add: onResults_def Let_def updateHandData_def)
  from a b gestures_pinch_no_photo [OF assms(3,4)] show ?thesis by blast
qed

theorem focus_rejected_without_photos_witness:
  "focus_inv \<lparr>exp_particles = [\<lparr>pd_type = DUST_TYPE, pd_id = ''a''\<rparr>], exp_mode = TREE,
              targetRotation = (0, 0), lastFocusChange = 0, focusId = None\<rparr>
   \<and> filter (\<lambda>p. pd_type p = PHOTO_TYPE)
     (exp_particles \<lparr>exp_particles = [\<lparr>pd_type = DUST_TYPE, pd_id = ''a''\<rparr>], exp_mode = TREE,
                    targetRotation = (0, 0), lastFocusChange = 0, focusId = None\<rparr>) = []
   \<and> photos_of (particles \<lparr>mode = SCATTER, particles = [constructor (\<lambda>_. 1/2) DECOR 0],
                           focusedPhotoIndex = - 1, mainGroup_rotation_x = 0,
                           mainGroup_rotation_y = 0\<rparr>) = []
   \<and> (\<exists>e'. setMode 5 0 FOCUS
              \<lparr>exp_particles = [\<lparr>pd_type = DUST_TYPE, pd_id = ''a''\<rparr>], exp_mode = TREE,
               targetRotation = (0, 0), lastFocusChange = 0, focusId = None\<rparr> = Inr e'
           \<and> exp_mode e' = SCATTER)
   \<and> mode (gestures 0 (Some (\<lambda>i. \<lparr>lx = 0, ly = 0, lz = 0\<rparr>))
             \<lparr>mode = SCATTER, particles = [constructor (\<lambda>_. 1/2) DECOR 0],
              focusedPhotoIndex = - 1, mainGroup_rotation_x = 0, mainGroup_rotation_y = 0\<rparr>)
     = SCATTER"
proof -
  let ?e = "\<lparr>exp_particles = [\<lparr>pd_type = DUST_TYPE, pd_id = ''a''\<rparr>], exp_mode = TREE,
               targetRotation = (0, 0), lastFocusChange = 0, focusId = None\<rparr>"
  let ?s = "\<lparr>mode = SCATTER, particles = [constructor (\<lambda>_. 1/2) DECOR 0],
              focusedPhotoIndex = - 1, mainGroup_rotation_x = 0, mainGroup_rotation_y = 0\<rparr>"
  let ?hand = "\<lambda>i::nat. \<lparr>lx = 0, ly = 0, lz = 0\<rparr>"
  have h1: "focus_inv ?e" by (simp add: focus_inv_def)
  have h2: "filter (\<lambda>p. pd_type p = PHOTO_TYPE) (exp_particles ?e) = []" by simp
  have h3: "photos_of (particles ?s) = []" by (simp add: photos_of_def constructor_def)
  have h4: "Math_hypot [lx (?hand 4) - lx (?hand 8), ly (?hand 4) - ly (?hand 8)] < 5/100"
    by (simp add: Math_hypot_def)
  show ?thesis
    using h1 h2 h3 focus_rejected_without_photos [OF h1 h2 h3 h4, of 5 0 "?hand 9" 0]
    by auto
qed

text \<open>
  The claim as stated fails in \<open>Scene.tsx\<close>: in TREE mode, the mode the scene starts in,
  with no PHOTO particle in the registry, a hand whose thumb tip touches the index fingertip
  is a PINCH and leaves the mode TREE, not SCATTER.
\<close>

theorem focus_fallback_counterexample:
  "photos_of (particles
       \<lparr>mode = TREE, particles = [constructor (\<lambda>_. 1/2) DECOR 0, constructor (\<lambda>_. 1/2) DUST 0],
        focusedPhotoIndex = - 1, mainGroup_rotation_x = 0, mainGroup_rotation_y = 0\<rparr>) = []
   \<and> spec_classify euclidean2 (5/100) (25/100) (4/10)
       (\<lambda>i. if i = 4 \<or> i = 8 then \<lparr>lx = 5/10, ly = 5/10, lz = 0\<rparr>
                     else \<lparr>lx = 5/10, ly = 9/10, lz = 0\<rparr>) = PINCH
   \<and> mode (gestures 0 (Some (\<lambda>i. if i = 4 \<or> i = 8 then \<lparr>lx = 5/10, ly = 5/10, lz = 0\<rparr>
                     else \<lparr>lx = 5/10, ly = 9/10, lz = 0\<rparr>))
       \<lparr>mode = TREE, particles = [constructor (\<lambda>_. 1/2) DECOR 0, constructor (\<lambda>_. 1/2) DUST 0],
        focusedPhotoIndex = - 1, mainGroup_rotation_x = 0, mainGroup_rotation_y = 0\<rparr>) = TREE
   \<and> mode (gestures 0 (Some (\<lambda>i. if i = 4 \<or> i = 8 then \<lparr>lx = 5/10, ly = 5/10, lz = 0\<rparr>
                     else \<lparr>lx = 5/10, ly = 9/10, lz = 0\<rparr>))
       \<lparr>mode = TREE, particles = [constructor (\<lambda>_. 1/2) DECOR 0, constructor (\<lambda>_. 1/2) DUST 0],
        focusedPhotoIndex = - 1, mainGroup_rotation_x = 0, mainGroup_rotation_y = 0\<rparr>) \<noteq> SCATTER"
  by (simp add: gestures_def photos_of_def constructor_def Let_def Math_hypot_def
        spec_classify_def classify_with_def euclidean2_def)

lemma gestures_part002_request:
  "requested_part002 hand = Some md \<Longrightarrow>
   mode (gestures_part002 (Some hand) s) = md
   \<and> focusedPhotoIndex (gestures_part002 (Some hand) s) = focusedPhotoIndex s
   \<and> particles (gestures_part002 (Some hand) s) = particles s"
  by (simp add: gestures_part002_def Let_def)

lemma selectFocus_part002_keeps:
  "focusedPhotoIndex s \<noteq> - 1 \<Longrightarrow> selectFocus_part002 rnd FOCUS s = s"
  by (simp add: selectFocus_part002_def)

lemma calculateTargets_part002_other:
  "mode (calculateTargets_part002 isMobile now rnd md s) = mode s"
  "focusedPhotoIndex (calculateTargets_part002 isMobile now rnd md s)
     = focusedPhotoIndex (selectFocus_part002 rnd md s)"
  by (simp_all add: calculateTargets_part002_def Let_def selectFocus_part002_def)

lemma animate_part002_other:
  "mode (animate_part002 sl isMobile now rnd det s) = mode (gestures_part002 det s)"
  "focusedPhotoIndex (animate_part002 sl isMobile now rnd det s)
     = focusedPhotoIndex (selectFocus_part002 rnd (mode (gestures_part002 det s))
                            (gestures_part002 det s))"
  by (simp_all add: animate_part002_def Let_def calculateTargets_part002_other)

lemma updateHandData_mode: "exp_mode (updateHandData x y e) = exp_mode e"
  by (simp add: updateHandData_def)

lemma onResults_same:
  assumes "request_of g = Some (exp_mode e)"
  shows "onResults now rnd (Some (g, c)) e
           = Inr (updateHandData ((ly c - 5/10) * (5/10)) ((lx c - 5/10) * (15/10)) e)"
proof -
  let ?e1 = "updateHandData ((ly c - 5/10) * (5/10)) ((lx c - 5/10) * (15/10)) e"
  show ?thesis
  proof (cases g)
    case NONE
    with assms show ?thesis by simp
  next
    case PINCH
    with assms have "exp_mode ?e1 = FOCUS" by (simp add: updateHandData_mode)
    then have "setMode now rnd FOCUS ?e1 = Inr ?e1" using setMode_same [of now rnd ?e1] by simp
    with PINCH show ?thesis by (simp add: onResults_def Let_def)
  next
    case FIST
    with assms have "exp_mode ?e1 = TREE" by (simp add: updateHandData_mode)
    then have "setMode now rnd TREE ?e1 = Inr ?e1" using setMode_same [of now rnd ?e1] by simp
    with FIST show ?thesis by (simp add: onResults_def Let_def)
  next
    case OPEN
    with assms have "exp_mode ?e1 = SCATTER" by (simp add: updateHandData_mode)
    then have "setMode now rnd SCATTER ?e1 = Inr ?e1" using setMode_same [of now rnd ?e1] by simp
    with OPEN show ?thesis by (simp add: onResults_def Let_def)
  qed
qed

lemma gestures_same:
  assumes "request_of (spec_classify euclidean2 (5/100) (25/100) (4/10) hand) = Some (mode s)"
  shows "mode (gestures r (Some hand) s) = mode s
       \<and> focusedPhotoIndex (gestures r (Some hand) s) = focusedPhotoIndex s
       \<and> particles (gestures r (Some hand) s) = particles s"
  using assms
  by (cases "spec_classify euclidean2 (5/100) (25/100) (4/10) hand")
     (simp_all add: gestures_classified Let_def)

text \<open>
  Claim C4. A request for the mode that is current already changes nothing of the mode
  machine. \<open>Experience.setMode\<close> returns the state as it is, so a gesture that maps to the
  current mode changes, through the loop of \<open>App\<close>, neither the mode nor the focus target
  nor the registry. In \<open>part_002\<close> and in \<open>Scene.tsx\<close> the hand part of \<open>animate\<close> keeps
  mode, \<open>focusedPhotoIndex\<close> and particles; and a whole frame of \<open>part_002\<close> with a pinch in
  FOCUS mode keeps the focus target that is set: it is not drawn again.
\<close>

theorem current_mode_request_is_noop:
  assumes "request_of g = Some (exp_mode e)"
    and "requested_part002 hand = Some (mode s)"
    and "request_of (spec_classify euclidean2 (5/100) (25/100) (4/10) hand') = Some (mode s')"
  shows "setMode now rnd (exp_mode e) e = Inr e
       \<and> (\<exists>e'. onResults now rnd (Some (g, c)) e = Inr e' \<and> exp_mode e' = exp_mode e
               \<and> focusId e' = focusId e \<and> exp_particles e' = exp_particles e
               \<and> lastFocusChange e' = lastFocusChange e)
       \<and> mode (gestures_part002 (Some hand) s) = mode s
       \<and> focusedPhotoIndex (gestures_part002 (Some hand) s) = focusedPhotoIndex s
       \<and> particles (gestures_part002 (Some hand) s) = particles s
       \<and> mode (animate_part002 sl isMobile now r (Some hand) s) = mode s
       \<and> (if mode s = FOCUS \<and> focusedPhotoIndex s \<noteq> - 1
          then focusedPhotoIndex (animate_part002 sl isMobile now r (Some hand) s)
                 = focusedPhotoIndex s
          else True)
       \<and> mode (gestures r' (Some hand') s') = mode s'
       \<and> focusedPhotoIndex (gestures r' (Some hand') s') = focusedPhotoIndex s'
       \<and> particles (gestures r' (Some hand') s') = particles s'"
proof -
  have a: "setMode now rnd (exp_mode e) e = Inr e" by (rule setMode_same)
  have b: "\<exists>e'. onResults now rnd (Some (g, c)) e = Inr e' \<and> exp_mode e' = exp_mode e
               \<and> focusId e' = focusId e \<and> exp_particles e' = exp_particles e
               \<and> lastFocusChange e' = lastFocusChange e"
    by (simp add: onResults_same [OF assms(1)] updateHandData_def)
  note g = gestures_part002_request [OF assms(2), of s]
  have d: "mode (animate_part002 sl isMobile now r (Some hand) s) = mode s"
    using g by (simp add: animate_part002_other)
  have f: "if mode s = FOCUS \<and> focusedPhotoIndex s \<noteq> - 1
          then focusedPhotoIndex (animate_part002 sl isMobile now r (Some hand) s)
                 = focusedPhotoIndex s
          else True"
    using g by (simp add: animate_part002_other selectFocus_part002_keeps)
  from a b g d f gestures_same [OF assms(3), of r'] show ?thesis by blast
qed

theorem current_mode_request_is_noop_witness:
  "request_of PINCH
     = Some (exp_mode \<lparr>exp_particles = [\<lparr>pd_type = PHOTO_TYPE, pd_id = ''photo_1''\<rparr>],
                      exp_mode = FOCUS, targetRotation = (0, 0), lastFocusChange = 0,
                      focusId = Some ''photo_1''\<rparr>)
   \<and> requested_part002 (\<lambda>i. \<lparr>lx = 0, ly = 0, lz = 0\<rparr>) = Some FOCUS
   \<and> (\<exists>e'. onResults 9 (1/2) (Some (PINCH, \<lparr>lx = 0, ly = 0, lz = 0\<rparr>))
              \<lparr>exp_particles = [\<lparr>pd_type = PHOTO_TYPE, pd_id = ''photo_1''\<rparr>],
               exp_mode = FOCUS, targetRotation = (0, 0), lastFocusChange = 0,
               focusId = Some ''photo_1''\<rparr> = Inr e'
           \<and> exp_mode e' = FOCUS \<and> focusId e' = Some ''photo_1'')
   \<and> focusedPhotoIndex (animate_part002 (\<lambda>a b t. b) False 9 (1/2)
        (Some (\<lambda>i. \<lparr>lx = 0, ly = 0, lz = 0\<rparr>))
        \<lparr>mode = FOCUS, particles = [constructor_part002 (\<lambda>_. 0) PHOTO 0,
                                  constructor_part002 (\<lambda>_. 0) PHOTO 1],
         focusedPhotoIndex = 0, mainGroup_rotation_x = 0, mainGroup_rotation_y = 0\<rparr>) = 0
   \<and> mode (gestures (1/2) (Some (\<lambda>i. \<lparr>lx = 0, ly = 0, lz = 0\<rparr>))
        \<lparr>mode = FOCUS, particles = [constructor (\<lambda>_. 1/2) PHOTO 0, constructor (\<lambda>_. 1/2) PHOTO 1],
         focusedPhotoIndex = 0, mainGroup_rotation_x = 0, mainGroup_rotation_y = 0\<rparr>) = FOCUS
   \<and> focusedPhotoIndex (gestures (1/2) (Some (\<lambda>i. \<lparr>lx = 0, ly = 0, lz = 0\<rparr>))
        \<lparr>mode = FOCUS, particles = [constructor (\<lambda>_. 1/2) PHOTO 0, constructor (\<lambda>_. 1/2) PHOTO 1],
         focusedPhotoIndex = 0, mainGroup_rotation_x = 0, mainGroup_rotation_y = 0\<rparr>) = 0"
proof -
  let ?e = "\<lparr>exp_particles = [\<lparr>pd_type = PHOTO_TYPE, pd_id = ''photo_1''\<rparr>],
               exp_mode = FOCUS, targetRotation = (0, 0), lastFocusChange = 0,
               focusId = Some ''photo_1''\<rparr>"
  let ?hand = "\<lambda>i::nat. \<lparr>lx = 0, ly = 0, lz = 0\<rparr>"
  let ?s = "\<lparr>mode = FOCUS, particles = [constructor_part002 (\<lambda>_. 0) PHOTO 0,
                                  constructor_part002 (\<lambda>_. 0) PHOTO 1],
         focusedPhotoIndex = 0, mainGroup_rotation_x = 0, mainGroup_rotation_y = 0\<rparr>"
  let ?s' = "\<lparr>mode = FOCUS, particles = [constructor (\<lambda>_. 1/2) PHOTO 0, constructor (\<lambda>_. 1/2) PHOTO 1],
         focusedPhotoIndex = 0, mainGroup_rotation_x = 0, mainGroup_rotation_y = 0\<rparr>"
  have h1: "request_of PINCH = Some (exp_mode ?e)" by simp
  have h2: "requested_part002 ?hand = Some (mode ?s)"
    by (simp add: requested_part002_def Math_hypot_def)
  have h3: "request_of (spec_classify euclidean2 (5/100) (25/100) (4/10) ?hand) = Some (mode ?s')"
    by (simp add: spec_classify_def classify_with_def euclidean2_def)
  show ?thesis
    using h1 h2 current_mode_request_is_noop [OF h1 h2 h3, of 9 "1/2" "?hand 9" "\<lambda>a b t. b" False
            "1/2" "1/2"]
    by auto
qed

section \<open>The focus target\<close>

lemma photos_of_member:
  "(i, p) \<in> set (photos_of ps) \<Longrightarrow> i < length ps \<and> ps ! i = p \<and> type p = PHOTO"
  by (auto simp: photos_of_def in_set_enumerate_eq)

lemma indexOf_pick_photo:
  assumes "0 \<le> indexOf_pick (photos_of ps) k"
  shows "nat (indexOf_pick (photos_of ps) k) < length ps
       \<and> type (ps ! nat (indexOf_pick (photos_of ps) k)) = PHOTO"
proof -
  from assms have k: "0 \<le> k" "k < int (length (photos_of ps))"
    by (auto simp: indexOf_pick_def split: if_splits)
  then have "photos_of ps ! nat k \<in> set (photos_of ps)" by simp
  then have "(fst (photos_of ps ! nat k), snd (photos_of ps ! nat k)) \<in> set (photos_of ps)"
    by simp
  from photos_of_member [OF this] k show ?thesis
    by (simp add: indexOf_pick_def)
qed

lemma focusTarget_ok_pick:
  "focusTarget_ok (s\<lparr>focusedPhotoIndex := indexOf_pick (photos_of (particles s)) k\<rparr>)"
  using indexOf_pick_photo [of "particles s" k] by (simp add: focusTarget_ok_def)

lemma focusTarget_ok_cong:
  assumes "focusTarget_ok s"
    and "focusedPhotoIndex s' = focusedPhotoIndex s"
    and "length (particles s') = length (particles s)"
    and "\<And>i. i < length (particles s) \<Longrightarrow> type (particles s' ! i) = type (particles s ! i)"
  shows "focusTarget_ok s'"
  using assms by (auto simp: focusTarget_ok_def split: if_splits)

lemma focusTarget_ok_unset: "focusedPhotoIndex s = - 1 \<Longrightarrow> focusTarget_ok s"
  by (simp add: focusTarget_ok_def)

lemma focusTarget_ok_mode: "focusTarget_ok (s\<lparr>mode := md\<rparr>) = focusTarget_ok s"
  by (simp add: focusTarget_ok_def)

lemma gestures_focusTarget_ok:
  assumes "focusTarget_ok s"
  shows "focusTarget_ok (gestures rnd det s)"
proof (cases det)
  case None
  with assms show ?thesis by (simp add: gestures_def)
next
  case (Some hand)
  let ?s2 = "s\<lparr>mainGroup_rotation_y :=
                   MathUtils_lerp (mainGroup_rotation_y s) ((lx (hand 9) - 5/10) * 4) (1/10),
                 mainGroup_rotation_x :=
                   MathUtils_lerp (mainGroup_rotation_x s) ((ly (hand 9) - 5/10) * 2) (1/10)\<rparr>"
  have ok2: "focusTarget_ok ?s2"
    using assms by (simp add: focusTarget_ok_def)
  have pick: "focusTarget_ok (?s2\<lparr>focusedPhotoIndex := indexOf_pick (photos_of (particles s)) k\<rparr>)"
    for k
    using focusTarget_ok_pick [of ?s2 k] by simp
  show ?thesis
    using ok2 pick
    by (cases "spec_classify euclidean2 (5/100) (25/100) (4/10) hand")
       (simp_all add: Some gestures_classified Let_def focusTarget_ok_mode)
qed

lemma handleAddPhoto_focusTarget_ok: "focusTarget_ok (handleAddPhoto rnd s)"
  by (simp add: handleAddPhoto_def addPhotoToScene_def Let_def focusTarget_ok_def
        constructor_fields)

lemma calculateTargets_focusTarget_ok:
  assumes "focusTarget_ok s"
  shows "focusTarget_ok (calculateTargets now s)"
  using assms
  by (rule focusTarget_ok_cong)
     (simp_all add: calculateTargets_other calculateTargets_length calculateTargets_nth
        calculateTargets_body_type)

lemma animate_focusTarget_ok:
  assumes "focusTarget_ok s"
  shows "focusTarget_ok (animate sl now rnd det s)"
proof -
  let ?s2 = "calculateTargets now (gestures rnd det s)"
  have ok: "focusTarget_ok ?s2"
    using assms by (intro calculateTargets_focusTarget_ok gestures_focusTarget_ok)
  have "focusTarget_ok (?s2\<lparr>particles := map (update sl (mode ?s2)) (particles ?s2)\<rparr>)"
    using ok by (rule focusTarget_ok_cong) (simp_all add: update_fields)
  then show ?thesis by (simp add: animate_def Let_def)
qed

lemma selectFocus_part002_focusTarget_ok:
  assumes "focusTarget_ok s"
  shows "focusTarget_ok (selectFocus_part002 rnd md s)"
  using assms focusTarget_ok_pick [of s]
  by (simp add: selectFocus_part002_def Let_def focusTarget_ok_unset)

lemma calculateTargets_part002_focusTarget_ok:
  assumes "focusTarget_ok s"
  shows "focusTarget_ok (calculateTargets_part002 isMobile now rnd md s)"
  using selectFocus_part002_focusTarget_ok [OF assms, of rnd md]
  by (rule focusTarget_ok_cong)
     (simp_all add: calculateTargets_part002_other calculateTargets_part002_length
        calculateTargets_part002_nth calculateTargets_body_part002_type
        selectFocus_part002_particles)

lemma handleAddPhoto_part002_focusTarget_ok:
  assumes "focusTarget_ok s"
  shows "focusTarget_ok (handleAddPhoto_part002 rnd s)"
  using assms
  by (auto simp: handleAddPhoto_part002_def addPhotoToScene_part002_def Let_def
        focusTarget_ok_def nth_append split: if_splits)

lemma gestures_part002_focusTarget_ok:
  assumes "focusTarget_ok s"
  shows "focusTarget_ok (gestures_part002 det s)"
  using assms
  by (simp add: gestures_part002_def Let_def focusTarget_ok_def split: option.split)

lemma animate_part002_focusTarget_ok:
  assumes "focusTarget_ok s"
  shows "focusTarget_ok (animate_part002 sl isMobile now rnd det s)"
proof -
  let ?s1 = "gestures_part002 det s"
  let ?s2 = "calculateTargets_part002 isMobile now rnd (mode ?s1) ?s1"
  have ok: "focusTarget_ok ?s2"
    using assms
    by (intro calculateTargets_part002_focusTarget_ok gestures_part002_focusTarget_ok)
  have "focusTarget_ok (?s2\<lparr>particles := map (update_part002 sl (mode ?s2)) (particles ?s2)\<rparr>)"
    using ok by (rule focusTarget_ok_cong) (simp_all add: update_part002_fields)
  then show ?thesis by (simp add: animate_part002_def Let_def)
qed

text \<open>
  Claim C5. The focus target, when set, is the index of a PHOTO particle of the registry,
  and every operation keeps it so: in \<open>Scene.tsx\<close> the hand part of \<open>animate\<close> (which
  chooses the target on a pinch), \<open>handleAddPhoto\<close>, target computation and the whole
  frame; in \<open>part_002\<close> \<open>calculateTargets\<close> (which chooses the target in FOCUS mode and
  clears it in the other modes), \<open>handleAddPhoto\<close>, the hand part of \<open>animate\<close> and the
  whole frame. This holds for every random number and every input.
\<close>

theorem focus_target_is_photo:
  assumes "focusTarget_ok s" and "focusTarget_ok s2"
  shows "focusTarget_ok (gestures rnd det s)
       \<and> focusTarget_ok (handleAddPhoto draws s)
       \<and> focusTarget_ok (calculateTargets now s)
       \<and> focusTarget_ok (animate sl now rnd det s)
       \<and> focusTarget_ok (calculateTargets_part002 isMobile now rnd md s2)
       \<and> focusTarget_ok (handleAddPhoto_part002 draws s2)
       \<and> focusTarget_ok (gestures_part002 det s2)
       \<and> focusTarget_ok (animate_part002 sl isMobile now rnd det s2)"
  using assms
  by (simp add: gestures_focusTarget_ok handleAddPhoto_focusTarget_ok
        calculateTargets_focusTarget_ok animate_focusTarget_ok
        calculateTargets_part002_focusTarget_ok handleAddPhoto_part002_focusTarget_ok
        gestures_part002_focusTarget_ok animate_part002_focusTarget_ok)


theorem focus_target_is_photo_witness:
  "focusTarget_ok \<lparr>mode = TREE,
       particles = [constructor (\<lambda>_. 1/2) DECOR 0, constructor (\<lambda>_. 1/2) PHOTO 0,
                    constructor (\<lambda>_. 1/2) PHOTO 1],
       focusedPhotoIndex = 1, mainGroup_rotation_x = 0, mainGroup_rotation_y = 0\<rparr>
   \<and> focusTarget_ok \<lparr>mode = FOCUS,
       particles = [constructor_part002 (\<lambda>_. 0) PHOTO 0, constructor_part002 (\<lambda>_. 0) DECOR 0],
       focusedPhotoIndex = - 1, mainGroup_rotation_x = 0, mainGroup_rotation_y = 0\<rparr>
   \<and> focusedPhotoIndex (gestures (1/2) (Some (\<lambda>i. \<lparr>lx = 0, ly = 0, lz = 0\<rparr>))
       \<lparr>mode = TREE,
        particles = [constructor (\<lambda>_. 1/2) DECOR 0, constructor (\<lambda>_. 1/2) PHOTO 0,
                     constructor (\<lambda>_. 1/2) PHOTO 1],
        focusedPhotoIndex = 1, mainGroup_rotation_x = 0, mainGroup_rotation_y = 0\<rparr>) = 2
   \<and> focusTarget_ok (gestures (1/2) (Some (\<lambda>i. \<lparr>lx = 0, ly = 0, lz = 0\<rparr>))
       \<lparr>mode = TREE,
        particles = [constructor (\<lambda>_. 1/2) DECOR 0, constructor (\<lambda>_. 1/2) PHOTO 0,
                     constructor (\<lambda>_. 1/2) PHOTO 1],
        focusedPhotoIndex = 1, mainGroup_rotation_x = 0, mainGroup_rotation_y = 0\<rparr>)
   \<and> focusedPhotoIndex (calculateTargets_part002 False 0 (1/2) FOCUS
       \<lparr>mode = FOCUS,
        particles = [constructor_part002 (\<lambda>_. 0) PHOTO 0, constructor_part002 (\<lambda>_. 0) DECOR 0],
        focusedPhotoIndex = - 1, mainGroup_rotation_x = 0, mainGroup_rotation_y = 0\<rparr>) = 0
   \<and> focusTarget_ok (calculateTargets_part002 False 0 (1/2) FOCUS
       \<lparr>mode = FOCUS,
        particles = [constructor_part002 (\<lambda>_. 0) PHOTO 0, constructor_part002 (\<lambda>_. 0) DECOR 0],
        focusedPhotoIndex = - 1, mainGroup_rotation_x = 0, mainGroup_rotation_y = 0\<rparr>)"
proof -
  let ?s = "\<lparr>mode = TREE,
       particles = [constructor (\<lambda>_. 1/2) DECOR 0, constructor (\<lambda>_. 1/2) PHOTO 0,
                    constructor (\<lambda>_. 1/2) PHOTO 1],
       focusedPhotoIndex = 1, mainGroup_rotation_x = 0, mainGroup_rotation_y = 0\<rparr>"
  let ?s2 = "\<lparr>mode = FOCUS,
       particles = [constructor_part002 (\<lambda>_. 0) PHOTO 0, constructor_part002 (\<lambda>_. 0) DECOR 0],
       focusedPhotoIndex = - 1, mainGroup_rotation_x = 0, mainGroup_rotation_y = 0\<rparr>"
  let ?hand = "\<lambda>i::nat. \<lparr>lx = 0, ly = 0, lz = 0\<rparr>"
  have h1: "focusTarget_ok ?s" by (simp add: focusTarget_ok_def constructor_def)
  have h2: "focusTarget_ok ?s2" by (simp add: focusTarget_ok_def)
  have e1: "focusedPhotoIndex (gestures (1/2) (Some ?hand) ?s) = 2"
    by (simp add: gestures_def Let_def Math_hypot_def photos_of_def constructor_def
          indexOf_pick_def)
  have e2: "focusedPhotoIndex (calculateTargets_part002 False 0 (1/2) FOCUS ?s2) = 0"
    by (simp add: calculateTargets_part002_def selectFocus_part002_def Let_def photos_of_def
          constructor_part002_def indexOf_pick_def)
  show ?thesis
    using h1 h2 e1 e2
      focus_target_is_photo [OF h1 h2, of "1/2" "Some ?hand" "\<lambda>_. 0" 0 "\<lambda>a b t. b" False FOCUS]
    by blast
qed

section \<open>Photo ingestion\<close>

text \<open>
  Claim C3, as the code has it. Every add-photo event appends one new PHOTO particle to
  the registry and sets the mode to FOCUS. In \<open>Scene.tsx\<close> the listener also sets
  \<open>focusedPhotoIndex\<close> to the index of the new particle. In \<open>part_002\<close> the listener
  does not write the focus target: the next \<open>calculateTargets\<close> draws it at random among
  all PHOTO particles when it was unset, and keeps the old target when one was set.
\<close>

theorem photo_ingestion:
  "particles (handleAddPhoto draws s)
     = particles s @ [constructor draws PHOTO (length (photos_of (particles s)))]
   \<and> type (constructor draws PHOTO (length (photos_of (particles s)))) = PHOTO
   \<and> mode (handleAddPhoto draws s) = FOCUS
   \<and> focusedPhotoIndex (handleAddPhoto draws s) = int (length (particles s))
   \<and> particles (handleAddPhoto draws s) ! nat (focusedPhotoIndex (handleAddPhoto draws s))
     = constructor draws PHOTO (length (photos_of (particles s)))
   \<and> particles (handleAddPhoto_part002 draws s2)
     = particles s2 @ [(constructor_part002 draws PHOTO (length (photos_of (particles s2))))
                        \<lparr>mesh_position := Some (vec 0 (- 100) 0)\<rparr>]
   \<and> type ((constructor_part002 draws PHOTO (length (photos_of (particles s2))))
                        \<lparr>mesh_position := Some (vec 0 (- 100) 0)\<rparr>) = PHOTO
   \<and> mode (handleAddPhoto_part002 draws s2) = FOCUS
   \<and> focusedPhotoIndex (handleAddPhoto_part002 draws s2) = focusedPhotoIndex s2
   \<and> focusedPhotoIndex (calculateTargets_part002 isMobile now rnd FOCUS
                          (handleAddPhoto_part002 draws s2))
     = (if focusedPhotoIndex s2 = - 1
        then indexOf_pick (photos_of (particles (handleAddPhoto_part002 draws s2)))
               \<lfloor>rnd * real (length (photos_of (particles (handleAddPhoto_part002 draws s2))))\<rfloor>
        else focusedPhotoIndex s2)"
proof -
  have a: "particles (handleAddPhoto draws s)
     = particles s @ [constructor draws PHOTO (length (photos_of (particles s)))]"
    "mode (handleAddPhoto draws s) = FOCUS"
    "focusedPhotoIndex (handleAddPhoto draws s) = int (length (particles s))"
    by (simp_all add: handleAddPhoto_def addPhotoToScene_def Let_def)
  have b: "particles (handleAddPhoto draws s) ! nat (focusedPhotoIndex (handleAddPhoto draws s))
     = constructor draws PHOTO (length (photos_of (particles s)))"
    by (simp add: a)
  have c: "particles (handleAddPhoto_part002 draws s2)
     = particles s2 @ [(constructor_part002 draws PHOTO (length (photos_of (particles s2))))
                        \<lparr>mesh_position := Some (vec 0 (- 100) 0)\<rparr>]"
    "mode (handleAddPhoto_part002 draws s2) = FOCUS"
    "focusedPhotoIndex (handleAddPhoto_part002 draws s2) = focusedPhotoIndex s2"
    by (simp_all add: handleAddPhoto_part002_def addPhotoToScene_part002_def Let_def)
  have d: "type (constructor draws PHOTO (length (photos_of (particles s)))) = PHOTO"
    "type ((constructor_part002 draws PHOTO (length (photos_of (particles s2))))
                        \<lparr>mesh_position := Some (vec 0 (- 100) 0)\<rparr>) = PHOTO"
    by (simp_all add: constructor_def constructor_part002_def Let_def)
  have e: "focusedPhotoIndex (calculateTargets_part002 isMobile now rnd FOCUS
                          (handleAddPhoto_part002 draws s2))
     = (if focusedPhotoIndex s2 = - 1
        then indexOf_pick (photos_of (particles (handleAddPhoto_part002 draws s2)))
               \<lfloor>rnd * real (length (photos_of (particles (handleAddPhoto_part002 draws s2))))\<rfloor>
        else focusedPhotoIndex s2)"
    by (simp add: calculateTargets_part002_other selectFocus_part002_def Let_def c(3))
  from a b c d e show ?thesis by blast
qed

text \<open>
  The claim as stated fails in \<open>part_002\<close>: in SCATTER mode with two PHOTO particles
  (indices 0 and 1) the event appends the new particle at index 2 and sets the mode FOCUS,
  but the focus target stays unset, and the next target computation, drawing 0, focuses
  the particle at index 0.
\<close>

theorem photo_ingestion_counterexample:
  "length (particles (handleAddPhoto_part002 (\<lambda>_. 0)
       \<lparr>mode = SCATTER,
        particles = [constructor_part002 (\<lambda>_. 0) PHOTO 0, constructor_part002 (\<lambda>_. 0) PHOTO 1],
        focusedPhotoIndex = - 1, mainGroup_rotation_x = 0, mainGroup_rotation_y = 0\<rparr>)) = 3
   \<and> mode (handleAddPhoto_part002 (\<lambda>_. 0)
       \<lparr>mode = SCATTER,
        particles = [constructor_part002 (\<lambda>_. 0) PHOTO 0, constructor_part002 (\<lambda>_. 0) PHOTO 1],
        focusedPhotoIndex = - 1, mainGroup_rotation_x = 0, mainGroup_rotation_y = 0\<rparr>) = FOCUS
   \<and> focusedPhotoIndex (handleAddPhoto_part002 (\<lambda>_. 0)
       \<lparr>mode = SCATTER,
        particles = [constructor_part002 (\<lambda>_. 0) PHOTO 0, constructor_part002 (\<lambda>_. 0) PHOTO 1],
        focusedPhotoIndex = - 1, mainGroup_rotation_x = 0, mainGroup_rotation_y = 0\<rparr>) = - 1
   \<and> focusedPhotoIndex (calculateTargets_part002 False 0 0 FOCUS (handleAddPhoto_part002 (\<lambda>_. 0)
       \<lparr>mode = SCATTER,
        particles = [constructor_part002 (\<lambda>_. 0) PHOTO 0, constructor_part002 (\<lambda>_. 0) PHOTO 1],
        focusedPhotoIndex = - 1, mainGroup_rotation_x = 0, mainGroup_rotation_y = 0\<rparr>)) = 0"
  by (simp add: handleAddPhoto_part002_def addPhotoToScene_part002_def
        calculateTargets_part002_def selectFocus_part002_def Let_def photos_of_def
        constructor_part002_def indexOf_pick_def)

end
